theory Spec2Isabelle
  imports Complex_Main "HOL-Library.AList"
begin

section \<open>JavaScript values shared by the components\<close>

text \<open>
  A JavaScript number, a double, as far as the components look at it: NaN, an
  infinity, or a finite double, which \<open>Num\<close> gives by its exact value (negative zero
  and zero are both \<open>Num 0\<close>). The components store a number, test it for truthiness
  and print it; the arithmetic of doubles is not defined here.
\<close>

datatype jsnumber = NaN | PosInfinity | NegInfinity | Num rat

fun truthyNumber :: "jsnumber \<Rightarrow> bool" where
  "truthyNumber NaN = False"
| "truthyNumber PosInfinity = True"
| "truthyNumber NegInfinity = True"
| "truthyNumber (Num x) = (x \<noteq> 0)"

text \<open>
  \<open>Math.round(x)\<close>: the integer nearest to the value of \<open>x\<close>, a tie going up. The
  result is exact for every double.
\<close>

fun Math_round :: "jsnumber \<Rightarrow> jsnumber" where
  "Math_round (Num x) = Num (of_int \<lfloor>x + 1 / 2\<rfloor>)"
| "Math_round x = x"


section \<open>MapInfoTooltip\<close>

text \<open>
  \<open>props.map.click\<close>: the pixel clicked, the map coordinate and the mouse button.
\<close>

record click =
  pixel :: "rat \<times> rat"
  coordinate :: "rat list"
  button :: int

record tooltip_props =
  enabled :: bool
  map_click :: "click option"
  map_projection :: string
  map_displayCrs :: string
  includeWGS84 :: bool
  elevationPrecision :: int

text \<open>
  The two entries of \<open>config.json\<close> read through \<open>ConfigUtils.getConfigProp\<close>;
  \<open>None\<close> is an entry that is not set.
\<close>

record tooltip_config =
  elevationServiceUrl :: "string option"
  mapInfoService :: "string option"

text \<open>
  The component state. The class declares \<open>point\<close>, \<open>elevation\<close> and \<open>extraInfo\<close>;
  \<open>clear\<close> writes a fourth key, \<open>height\<close>, which is absent until then.
\<close>

datatype height_key = HeightAbsent | HeightNull

record tooltip_state =
  point :: "click option"
  elevation :: "jsnumber option"
  extraInfo :: "(string \<times> string) list option"
  height :: height_key

definition initial_tooltip_state :: tooltip_state where
  "initial_tooltip_state =
     \<lparr>point = None, elevation = None, extraInfo = None, height = HeightAbsent\<rparr>"

text \<open>
  A request handed to \<open>axios.get\<close>: the URL and the \<open>serviceParams\<close> (the
  coordinate, which the code joins with commas, and the map projection).
\<close>

datatype fetch =
  ElevationFetch string "rat list" string
| MapInfoFetch string "rat list" string

text \<open>\<open>clear = () => this.setState({point: null, height: null, extraInfo: null})\<close>\<close>

definition clear :: "tooltip_state \<Rightarrow> tooltip_state" where
  "clear st = st\<lparr>point := None, height := HeightNull, extraInfo := None\<rparr>"

text \<open>\<open>s.replace(/\/$/, '')\<close>: one trailing slash is removed.\<close>

definition stripTrailingSlash :: "string \<Rightarrow> string" where
  "stripTrailingSlash s = (if s \<noteq> [] \<and> last s = CHR ''/'' then butlast s else s)"

definition elevationService :: "tooltip_config \<Rightarrow> string" where
  "elevationService cfg =
     stripTrailingSlash (case elevationServiceUrl cfg of None \<Rightarrow> [] | Some u \<Rightarrow> u)"

text \<open>The requests issued for a new point, in the order of the source.\<close>

definition issueFetches :: "tooltip_config \<Rightarrow> tooltip_props \<Rightarrow> click \<Rightarrow> fetch list" where
  "issueFetches cfg props newPoint =
     (if elevationService cfg \<noteq> []
      then [ElevationFetch (elevationService cfg @ ''/getelevation'')
              (coordinate newPoint) (map_projection props)]
      else []) @
     (case mapInfoService cfg of
        None \<Rightarrow> []
      | Some u \<Rightarrow> if u \<noteq> [] then [MapInfoFetch u (coordinate newPoint) (map_projection props)]
                  else [])"

definition samePixel :: "click \<Rightarrow> click \<Rightarrow> bool" where
  "samePixel a b = (fst (pixel a) = fst (pixel b) \<and> snd (pixel a) = snd (pixel b))"

text \<open>
  \<open>componentDidUpdate(prevProps)\<close>: the state after the synchronous part, and the
  requests it has sent. The responses are separate, later steps.
\<close>

definition componentDidUpdate ::
  "tooltip_config \<Rightarrow> tooltip_props \<Rightarrow> tooltip_props \<Rightarrow> tooltip_state
     \<Rightarrow> tooltip_state \<times> fetch list" where
  "componentDidUpdate cfg prevProps props st =
     (if \<not> enabled props \<and> point st \<noteq> None then (clear st, [])
      else case map_click props of
        None \<Rightarrow> (if point st \<noteq> None then clear st else st, [])
      | Some newPoint \<Rightarrow>
          if button newPoint \<noteq> 2 then (if point st \<noteq> None then clear st else st, [])
          else if (case map_click prevProps of
                     None \<Rightarrow> True
                   | Some oldPoint \<Rightarrow> \<not> samePixel oldPoint newPoint)
          then (st\<lparr>point := Some newPoint, elevation := None\<rparr>,
                issueFetches cfg props newPoint)
          else (st, []))"

text \<open>
  The \<open>then\<close> handlers of the two requests. The elevation handler stores
  \<open>Math.round(e * Math.pow(10, prec)) / Math.pow(10, prec)\<close>, where \<open>e\<close> is
  \<open>response.data.elevation\<close> and \<open>prec\<close> the precision of the props that were
  previous when the request was sent. The product, the power and the quotient are
  operations on doubles; \<open>rounding prec e\<close> stands for the double that the
  expression gives, and the handler is defined for any such function.
\<close>

definition onElevationResponse ::
  "(int \<Rightarrow> jsnumber \<Rightarrow> jsnumber) \<Rightarrow> int \<Rightarrow> jsnumber \<Rightarrow> tooltip_state \<Rightarrow> tooltip_state" where
  "onElevationResponse rounding prec e st = st\<lparr>elevation := Some (rounding prec e)\<rparr>"

text \<open>
  The rounding at precision 0, the default of \<open>elevationPrecision\<close>:
  \<open>Math.pow(10, 0)\<close> is 1, and a product and a quotient by 1 are exact, so the
  expression is \<open>Math.round(e)\<close>. At any other precision it gives NaN here, where
  the doubles are not followed.
\<close>

definition roundingAtPrecision0 :: "int \<Rightarrow> jsnumber \<Rightarrow> jsnumber" where
  "roundingAtPrecision0 prec e = (if prec = 0 then Math_round e else NaN)"

definition onMapInfoResponse ::
  "(string \<times> string) list option \<Rightarrow> tooltip_state \<Rightarrow> tooltip_state" where
  "onMapInfoResponse results st = st\<lparr>extraInfo := results\<rparr>"

text \<open>
  What \<open>render\<close> needs from the other modules: the translation of a message id, the
  text of a number, and the row of a point in a projection (label and formatted
  coordinate, from \<open>CoordinatesUtils\<close> and \<open>LocaleUtils\<close>).
\<close>

record tooltip_env =
  tr :: "string \<Rightarrow> string"
  numberText :: "jsnumber \<Rightarrow> string"
  coordinateRow :: "string \<Rightarrow> string \<Rightarrow> click \<Rightarrow> string \<times> string"

definition projections :: "tooltip_props \<Rightarrow> string list" where
  "projections props =
     (let p1 = [map_displayCrs props];
          p2 = (if map_projection props \<in> set p1 then p1 else p1 @ [map_projection props])
      in if includeWGS84 props \<and> ''EPSG:4326'' \<notin> set p2 then p2 @ [''EPSG:4326''] else p2)"

definition truthyElevation :: "tooltip_state \<Rightarrow> bool" where
  "truthyElevation st = (case elevation st of None \<Rightarrow> False | Some n \<Rightarrow> truthyNumber n)"

definition elevationRows :: "tooltip_env \<Rightarrow> tooltip_state \<Rightarrow> (string \<times> string) list" where
  "elevationRows env st =
     (case elevation st of
        None \<Rightarrow> []
      | Some n \<Rightarrow> if truthyNumber n
                  then [(tr env ''mapinfotooltip.elevation'', numberText env n @ '' m'')]
                  else [])"

text \<open>
  The rows of the popup table, \<open>info\<close> in \<open>render\<close>: a row for each projection, the
  elevation row, and the rows of \<open>extraInfo\<close>. \<open>None\<close> is the \<open>null\<close> returned when
  there is no point.
\<close>

definition coordinateRows :: "tooltip_env \<Rightarrow> tooltip_props \<Rightarrow> click \<Rightarrow> (string \<times> string) list" where
  "coordinateRows env props p =
     map (\<lambda>crs. coordinateRow env (map_projection props) crs p) (projections props)"

definition extraRows :: "tooltip_state \<Rightarrow> (string \<times> string) list" where
  "extraRows st = (case extraInfo st of None \<Rightarrow> [] | Some rows \<Rightarrow> rows)"

definition render :: "tooltip_env \<Rightarrow> tooltip_props \<Rightarrow> tooltip_state
     \<Rightarrow> (string \<times> string) list option" where
  "render env props st =
     (case point st of
        None \<Rightarrow> None
      | Some p \<Rightarrow> Some (coordinateRows env props p @ elevationRows env st @ extraRows st))"

text \<open>Two clicks, props and a configuration to run the tooltip on.\<close>

definition click1 :: click where
  "click1 = \<lparr>pixel = (10, 20), coordinate = [1, 2], button = 2\<rparr>"

definition click2 :: click where
  "click2 = \<lparr>pixel = (30, 40), coordinate = [3, 4], button = 2\<rparr>"

definition propsWithClick :: "click option \<Rightarrow> tooltip_props" where
  "propsWithClick c =
     \<lparr>enabled = True, map_click = c, map_projection = ''EPSG:3857'',
      map_displayCrs = ''EPSG:3857'', includeWGS84 = True, elevationPrecision = 0\<rparr>"

definition bothServices :: tooltip_config where
  "bothServices = \<lparr>elevationServiceUrl = Some ''/elevation/'', mapInfoService = Some ''/mapinfo''\<rparr>"

definition plainEnv :: tooltip_env where
  "plainEnv = \<lparr>tr = (\<lambda>msg. msg), numberText = (\<lambda>n. ''n''),
               coordinateRow = (\<lambda>src crs p. (crs, ''x, y''))\<rparr>"


section \<open>Strings and arrays of JavaScript used by QtDesignerForm\<close>

text \<open>
  \<open>name.split("__")\<close>: the name is cut at each occurrence of two underscores, found
  from the left; \<open>acc\<close> holds the current piece, reversed.
\<close>

fun splitFrom :: "string \<Rightarrow> string \<Rightarrow> string list" where
  "splitFrom acc [] = [rev acc]"
| "splitFrom acc [c] = [rev (c # acc)]"
| "splitFrom acc (c # d # cs) =
     (if c = CHR ''_'' \<and> d = CHR ''_'' then rev acc # splitFrom [] cs
      else splitFrom (c # acc) (d # cs))"

definition splitName :: "string \<Rightarrow> string list" where
  "splitName name = splitFrom [] name"

text \<open>\<open>parts.join(sep)\<close>\<close>

fun join :: "string \<Rightarrow> string list \<Rightarrow> string" where
  "join sep [] = []"
| "join sep [x] = x"
| "join sep (x # y # ys) = x @ sep @ join sep (y # ys)"

text \<open>\<open>parts.slice(a, b)\<close> for \<open>0 \<le> a\<close> and \<open>0 \<le> b\<close>\<close>

definition slice :: "nat \<Rightarrow> nat \<Rightarrow> 'a list \<Rightarrow> 'a list" where
  "slice a b xs = take (b - a) (drop a xs)"

text \<open>\<open>parts[i]\<close>; \<open>None\<close> is the \<open>undefined\<close> of an index out of range.\<close>

definition idx :: "'a list \<Rightarrow> nat \<Rightarrow> 'a option" where
  "idx xs i = (if i < length xs then Some (xs ! i) else None)"

text \<open>
  A string, or \<open>undefined\<close>, where the code concatenates it or uses it as a key:
  \<open>undefined\<close> reads as the text \<open>undefined\<close>.
\<close>

definition keyText :: "string option \<Rightarrow> string" where
  "keyText v = (case v of None \<Rightarrow> ''undefined'' | Some s \<Rightarrow> s)"

text \<open>\<open>v || null\<close> and \<open>v || false\<close> on a string: the empty string and \<open>undefined\<close> are falsy.\<close>

definition truthyOr :: "string option \<Rightarrow> string option" where
  "truthyOr v = (case v of None \<Rightarrow> None | Some s \<Rightarrow> if s = [] then None else Some s)"

definition startsWith :: "string \<Rightarrow> string \<Rightarrow> bool" where
  "startsWith s p = (take (length p) s = p)"

text \<open>The decimal text of a counter or of a percentage.\<close>

fun digitsOf :: "nat \<Rightarrow> nat \<Rightarrow> string" where
  "digitsOf 0 n = []"
| "digitsOf (Suc fuel) n =
     (if n < 10 then [char_of (48 + n)]
      else digitsOf fuel (n div 10) @ [char_of (48 + n mod 10)])"

definition numberToString :: "nat \<Rightarrow> string" where
  "numberToString n = digitsOf (Suc n) n"

definition newline :: string where
  "newline = [CHR 0x0A]"


section \<open>QtDesignerForm: the error message of a relation row\<close>

record geometry_error =
  reason :: string
  location :: string

text \<open>
  \<open>record.error_details || {}\<close>: a list that is missing and an empty one are the
  same to \<open>isEmpty\<close>, and both are \<open>[]\<close> here.
\<close>

record error_details =
  geometry_errors :: "geometry_error list"
  data_errors :: "string list"
  validation_errors :: "string list"

record relation_record =
  error :: string
  error_details :: error_details

text \<open>
  \<open>buildErrMsg\<close>. Adding the mapped array of geometry errors to a string converts
  the array with \<open>toString\<close>, which joins its entries with a comma.
\<close>

definition buildErrMsg :: "relation_record \<Rightarrow> string" where
  "buildErrMsg record =
     (let message = error record;
          errorDetails = error_details record;
          message1 =
            (if geometry_errors errorDetails \<noteq> []
             then message @ '':'' @ newline @
                  join '','' (map (\<lambda>entry. '' - '' @ reason entry @ '' at '' @ location entry)
                                 (geometry_errors errorDetails))
             else message);
          message2 =
            (if data_errors errorDetails \<noteq> []
             then message1 @ '':'' @ newline @ '' - '' @
                  join (newline @ '' - '') (data_errors errorDetails)
             else message1);
          message3 =
            (if validation_errors errorDetails \<noteq> []
             then message2 @ '':'' @ newline @ '' - '' @
                  join (newline @ '' - '') (validation_errors errorDetails)
             else message2)
      in message3)"


section \<open>QtDesignerForm: widgets named by the prefix grammar\<close>

text \<open>
  The combo box of \<open>renderWidget\<close>: what the branch for the class \<open>QComboBox\<close>
  hands to \<open>EditComboField\<close>, for a widget that its \<open>visible\<close> property does not
  hide (\<open>renderWidgetComboBox\<close> below has that test). \<open>properties\<close> is
  \<open>feature.properties\<close>; \<open>nametransform\<close> and \<open>mapPrefix\<close> are the argument and
  the prop of the same names.

  For a name of five or six parts that starts with \<open>kvrel\<close> the field is bound
  through a key/value relation: field id, relation key, element name and value. Any
  other combo box is bound by its own name: field id, element name, value and whether
  \<open>updateField\<close> is passed on. A name that starts with \<open>ext__\<close> has no element name
  (\<open>elname\<close> stays \<open>undefined\<close>), takes its value from
  \<open>formData.externalFields\<close> under the rest of the name, and gets \<open>null\<close> for
  \<open>updateField\<close>.
\<close>

datatype combo_value = PropertyValue string | ExternalField string

datatype combo =
  KvrelCombo (fieldId: string) (keyvalrel: string) (elementName: string) (comboValue: string)
| PlainCombo string "string option" combo_value bool

definition renderComboBox ::
  "string \<Rightarrow> (string \<Rightarrow> string) \<Rightarrow> (string \<rightharpoonup> string) \<Rightarrow> string \<Rightarrow> combo" where
  "renderComboBox mapPrefix nametransform properties name =
     (let parts = splitName name;
          count = length parts
      in if (count = 5 \<or> count = 6) \<and> idx parts 0 = Some ''kvrel''
         then let fieldId = join ''__'' (slice 1 (count - 3) parts);
                  value = (case properties fieldId of None \<Rightarrow> [] | Some v \<Rightarrow> v);
                  keyvalrel = mapPrefix @ keyText (idx parts (count - 3)) @ '':'' @
                              keyText (idx parts (count - 2)) @ '':'' @ keyText (idx parts (count - 1))
              in KvrelCombo fieldId keyvalrel (nametransform fieldId) value
         else if startsWith name ''ext__''
         then PlainCombo name None (ExternalField (drop 5 name)) False
         else PlainCombo name (Some (nametransform name))
                (PropertyValue (case properties name of None \<Rightarrow> [] | Some v \<Rightarrow> v)) True)"

text \<open>
  The descriptor of a relation table. \<open>sortcol\<close> is a string or \<open>null\<close>;
  \<open>noreorder\<close> is \<open>false\<close> (\<open>None\<close>) or the non-empty fifth part of the name.
\<close>

record relation_table =
  fk :: string
  sortcol :: "string option"
  noreorder :: "string option"

text \<open>
  The last step of \<open>reformatWidget\<close>: the table descriptor of a name of at least
  three parts that starts with \<open>nrel\<close>, with its key in \<open>relationTables\<close>.
\<close>

definition relationTableOf :: "string \<Rightarrow> string \<Rightarrow> (string \<times> relation_table) option" where
  "relationTableOf mapPrefix name =
     (let parts = splitName name
      in if length parts \<ge> 3 \<and> idx parts 0 = Some ''nrel''
         then Some (mapPrefix @ keyText (idx parts 1),
                    \<lparr>fk = keyText (idx parts 2), sortcol = truthyOr (idx parts 3),
                     noreorder = truthyOr (idx parts 4)\<rparr>)
         else None)"


section \<open>QtDesignerForm: the parsed form\<close>

text \<open>
  The value of a property: what \<open>XMLParser\<close> makes of the children of a
  \<open>property\<close> element, a text or an object of named values.
\<close>

datatype jval = JUndefined | JString string | JObject "(string \<times> jval) list"

text \<open>
  The \<open>property\<close> (or \<open>attribute\<close>) key of a node: missing, the parsed elements (an
  array of objects; \<open>MiscUtils.ensureArray\<close> makes the single object of a lone
  element a one-element array, and the list here is its result), or, after
  \<open>reformatWidget\<close>, an object from property name to value.
\<close>

datatype props =
  PAbsent
| PRaw "(string \<times> jval) list list"
| PMap "(string \<times> jval) list"

datatype spacer = Spacer (sname: "string option") (sproperty: props)

text \<open>
  A widget with its keys \<open>class\<close>, \<open>name\<close>, \<open>property\<close>, \<open>attribute\<close>, \<open>item\<close>
  (the entries of a combo box, \<open>[]\<close> when there are none), \<open>layout\<close> and \<open>widget\<close>
  (the pages of a tab or stacked widget, \<open>[]\<close> when the key is missing). A layout has
  \<open>class\<close>, \<open>name\<close>, \<open>item\<close> and, once reformatted, \<open>verticalFill\<close>. An item of
  a layout has the attributes \<open>row\<close>, \<open>column\<close>, \<open>rowspan\<close> and \<open>colspan\<close> as the
  document writes them, and the one child element it wraps.
\<close>

datatype widget =
  Widget (wclass: "string option") (wname: "string option") (wproperty: props)
    (wattribute: props) (witem: "widget list") (wlayout: "layout option")
    (wwidget: "widget list")
and layout =
  Layout (lclass: "string option") (lname: "string option") (litem: "item list")
    (lverticalFill: "bool option")
and item =
  Item (irow: "string option") (icolumn: "string option") (irowspan: "string option")
    (icolspan: "string option") (icontent: content)
and content = CWidget widget | CSpacer spacer | CLayout layout | CEmpty

text \<open>\<open>String(v)\<close> of a property value used as a key.\<close>

fun jvalText :: "jval \<Rightarrow> string" where
  "jvalText JUndefined = ''undefined''"
| "jvalText (JString s) = s"
| "jvalText (JObject kvs) = ''[object Object]''"

definition getMember :: "(string \<times> jval) list \<Rightarrow> string \<Rightarrow> jval" where
  "getMember obj k = (case map_of obj k of None \<Rightarrow> JUndefined | Some v \<Rightarrow> v)"

text \<open>
  One step of the \<open>reduce\<close> of \<open>reformatWidget\<close>:
  \<open>{...res, [prop.name]: prop[Object.keys(prop).find(key => key !== "name")]}\<close>.
\<close>

definition addProp :: "(string \<times> jval) list \<Rightarrow> (string \<times> jval) list \<Rightarrow> (string \<times> jval) list" where
  "addProp res prop =
     AList.update (jvalText (getMember prop ''name''))
       (case find (\<lambda>key. key \<noteq> ''name'') (map fst prop) of
          None \<Rightarrow> JUndefined
        | Some key \<Rightarrow> getMember prop key)
       res"

text \<open>
  \<open>widget.property = widget.property ? ensureArray(widget.property).reduce(...) : {}\<close>.
  An object that is already a map is a single element to \<open>ensureArray\<close>.
\<close>

fun reformatProps :: "props \<Rightarrow> (string \<times> jval) list" where
  "reformatProps PAbsent = []"
| "reformatProps (PRaw props) = foldl addProp [] props"
| "reformatProps (PMap m) = foldl addProp [] [m]"

text \<open>\<open>p.orientation\<close> of a spacer's \<open>property\<close>, \<open>undefined\<close> on anything but a map.\<close>

fun orientation :: "props \<Rightarrow> jval" where
  "orientation (PMap m) = getMember m ''orientation''"
| "orientation p = JUndefined"

text \<open>\<open>p?.key\<close> of a \<open>property\<close>: \<open>undefined\<close> on anything but a map.\<close>

fun propertyOf :: "props \<Rightarrow> string \<Rightarrow> jval" where
  "propertyOf (PMap m) key = getMember m key"
| "propertyOf p key = JUndefined"

definition hFitWidgets :: "string list" where
  "hFitWidgets = [''QLabel'', ''QCheckBox'', ''QRadioButton'', ''Line'', ''QDateTimeEdit'',
     ''QDateEdit'', ''QTimeEdit'']"

definition vFitWidgets :: "string list" where
  "vFitWidgets = [''QLabel'', ''QCheckBox'', ''QRadioButton'', ''Line'', ''QDateTimeEdit'',
     ''QDateEdit'', ''QTimeEdit'', ''QPushButton'', ''QComboBox'', ''QLineEdit'', ''QSpinBox'',
     ''QDoubleSpinBox'', ''QSlider'']"

text \<open>\<open>fitWidgets.includes(cls)\<close>, where a missing class is in no list.\<close>

definition includesClass :: "string list \<Rightarrow> string option \<Rightarrow> bool" where
  "includesClass classes cls = (case cls of None \<Rightarrow> False | Some c \<Rightarrow> c \<in> set classes)"


subsection \<open>Registries built by the parse\<close>

text \<open>
  The registries (\<open>fieldsMap\<close> is \<open>fields\<close>) hold the widget objects themselves, which \<open>reformatWidget\<close> goes on
  changing after it has stored them. A stored widget is therefore its place in the
  tree: the steps from the root widget down to it.
\<close>

datatype sel = ItemAt nat | LayoutOf | WidgetAt nat

type_synonym ref = "sel list"

record parse_state =
  relationTables :: "(string \<times> relation_table) list"
  fieldsMap :: "(string \<times> ref) list"
  buttons :: "(string \<times> ref) list"
  nrels :: "(string \<times> ref) list"
  externalFields :: "(string \<times> string) list"
  widgets :: "(string \<times> ref) list"
  counters_widget :: nat
  counters_layout :: nat

text \<open>
  The props of the form that the parse reads: \<open>mapPrefix\<close> and the keys of \<open>fields\<close>.
\<close>

record form_props =
  mapPrefix :: string
  fieldKeys :: "string list"

definition emptyRegistries :: parse_state where
  "emptyRegistries =
     \<lparr>relationTables = [], fieldsMap = [], buttons = [], nrels = [], externalFields = [],
      widgets = [], counters_widget = 0, counters_layout = 0\<rparr>"

text \<open>
  \<open>widget.name = widget.name || (":widget_" + counters.widget++)\<close>
\<close>

definition widgetName :: "string option \<Rightarrow> parse_state \<Rightarrow> string \<times> parse_state" where
  "widgetName name st =
     (case truthyOr name of
        Some n \<Rightarrow> (n, st)
      | None \<Rightarrow> ('':widget_'' @ numberToString (counters_widget st),
                 st\<lparr>counters_widget := Suc (counters_widget st)\<rparr>))"

definition layoutName :: "string option \<Rightarrow> parse_state \<Rightarrow> string \<times> parse_state" where
  "layoutName name st =
     (case truthyOr name of
        Some n \<Rightarrow> (n, st)
      | None \<Rightarrow> ('':layout_'' @ numberToString (counters_layout st),
                 st\<lparr>counters_layout := Suc (counters_layout st)\<rparr>))"

text \<open>
  The middle of \<open>reformatWidget\<close>: the widget at \<open>r\<close> is entered into \<open>fields\<close>,
  \<open>buttons\<close> or \<open>nrels\<close> by its name, then into \<open>externalFields\<close> and \<open>widgets\<close>.
\<close>

text \<open>
  \<open>key in object\<close> for a plain object with the given own keys: the keys that every
  object inherits from \<open>Object.prototype\<close> are found as well.
\<close>

definition objectPrototypeKeys :: "string list" where
  "objectPrototypeKeys = [''constructor'', ''__defineGetter__'', ''__defineSetter__'',
     ''hasOwnProperty'', ''__lookupGetter__'', ''__lookupSetter__'', ''isPrototypeOf'',
     ''propertyIsEnumerable'', ''toString'', ''valueOf'', ''__proto__'', ''toLocaleString'']"

definition inObject :: "string \<Rightarrow> string list \<Rightarrow> bool" where
  "inObject key ownKeys = (key \<in> set ownKeys \<or> key \<in> set objectPrototypeKeys)"

definition classify :: "form_props \<Rightarrow> ref \<Rightarrow> string \<Rightarrow> parse_state \<Rightarrow> parse_state" where
  "classify props r name st =
     (let parts = splitName name;
          st1 =
            (if inObject name (fieldKeys props) then st\<lparr>fieldsMap := AList.update name r (fieldsMap st)\<rparr>
             else if startsWith name ''kvrel__'' \<or> startsWith name ''img__''
             then (if inObject (keyText (idx parts 1)) (fieldKeys props)
                   then st\<lparr>fieldsMap := AList.update (keyText (idx parts 1)) r (fieldsMap st)\<rparr>
                   else st)
             else if startsWith name ''btn__''
             then st\<lparr>buttons := AList.update (keyText (idx parts 1)) r (buttons st)\<rparr>
             else if startsWith name ''nrel__''
             then st\<lparr>nrels := AList.update (keyText (idx parts 1)) r (nrels st)\<rparr>
             else st);
          st2 =
            (if startsWith name ''ext__''
             then st1\<lparr>externalFields := AList.update (drop 5 name) [] (externalFields st1)\<rparr>
             else st1)
      in st2\<lparr>widgets := AList.update name r (widgets st2)\<rparr>)"

text \<open>
  The end of \<open>reformatWidget\<close>: the descriptor of an \<open>nrel\<close> name is stored.
\<close>

definition storeRelationTable :: "form_props \<Rightarrow> string \<Rightarrow> parse_state \<Rightarrow> parse_state" where
  "storeRelationTable props name st =
     (case relationTableOf (mapPrefix props) name of
        None \<Rightarrow> st
      | Some (key, table) \<Rightarrow> st\<lparr>relationTables := AList.update key table (relationTables st)\<rparr>)"


subsection \<open>reformatWidget and reformatLayout\<close>

text \<open>
  \<open>reformatWidgetNamed props r name widget st\<close> is \<open>reformatWidget\<close> on the widget at \<open>r\<close>
  whose \<open>name\<close> key holds \<open>name\<close> when the call starts: the key as parsed, or the name
  that the loop over \<open>widget.widget\<close> has just written into the child. The result is
  the widget as the call leaves it, the \<open>verticalFill\<close> returned and the registries and
  counters. \<open>reformatEntries\<close> is the loop over \<open>widget.item\<close>, \<open>reformatPages\<close> the
  loop over \<open>widget.widget\<close>, \<open>reformatLayoutItems\<close> the loop over \<open>layout.item\<close>;
  each carries the index of the element and the \<open>verticalFill\<close> collected so far
  (\<open>|=\<close> on truth values).
\<close>

fun reformatWidgetNamed ::
  "form_props \<Rightarrow> ref \<Rightarrow> string option \<Rightarrow> widget \<Rightarrow> parse_state \<Rightarrow> widget \<times> bool \<times> parse_state"
and reformatEntries ::
  "form_props \<Rightarrow> ref \<Rightarrow> nat \<Rightarrow> widget list \<Rightarrow> bool \<Rightarrow> parse_state
     \<Rightarrow> widget list \<times> bool \<times> parse_state"
and reformatPages ::
  "form_props \<Rightarrow> ref \<Rightarrow> nat \<Rightarrow> widget list \<Rightarrow> bool \<Rightarrow> parse_state
     \<Rightarrow> widget list \<times> bool \<times> parse_state"
and reformatLayout ::
  "form_props \<Rightarrow> ref \<Rightarrow> layout \<Rightarrow> parse_state \<Rightarrow> layout \<times> bool \<times> parse_state"
and reformatLayoutItems ::
  "form_props \<Rightarrow> ref \<Rightarrow> nat \<Rightarrow> item list \<Rightarrow> bool \<Rightarrow> parse_state
     \<Rightarrow> item list \<times> bool \<times> parse_state"
where
  "reformatWidgetNamed props r name (Widget cls n0 property attribute entries lay pages) st =
     (case reformatEntries props r 0 entries False st of (entries', vf1, st1) \<Rightarrow>
      case widgetName name st1 of (name', st2) \<Rightarrow>
      case (case lay of
              None \<Rightarrow> (None, vf1, classify props r name' st2)
            | Some l \<Rightarrow>
                (case reformatLayout props (r @ [LayoutOf]) l (classify props r name' st2) of
                   (l', v, s) \<Rightarrow> (Some l', vf1 \<or> v, s))) of (lay', vf2, st4) \<Rightarrow>
      case reformatPages props r 0 pages vf2 st4 of (pages', vf3, st5) \<Rightarrow>
        (Widget cls (Some name') (PMap (reformatProps property)) (PMap (reformatProps attribute))
           entries' lay' pages',
         (if startsWith name' ''nrel__'' \<or> (lay = None \<and> \<not> includesClass vFitWidgets cls)
          then True else vf3),
         storeRelationTable props name' st5))"
| "reformatEntries props r i [] vf st = ([], vf, st)"
| "reformatEntries props r i (w # ws) vf st =
     (case reformatWidgetNamed props (r @ [ItemAt i]) (wname w) w st of (w', v, st1) \<Rightarrow>
      case reformatEntries props r (Suc i) ws (vf \<or> v) st1 of (ws', vf', st2) \<Rightarrow>
        (w' # ws', vf', st2))"
| "reformatPages props r i [] vf st = ([], vf, st)"
| "reformatPages props r i (child # ws) vf st =
     (case reformatWidgetNamed props (r @ [WidgetAt i])
             (Some ('':widget_'' @ numberToString (counters_widget st))) child
             (st\<lparr>counters_widget := Suc (counters_widget st)\<rparr>) of (w', v, st1) \<Rightarrow>
      case reformatPages props r (Suc i) ws (vf \<or> v) st1 of (ws', vf', st2) \<Rightarrow>
        (w' # ws', vf', st2))"
| "reformatLayout props r (Layout cls name items vfOld) st =
     (case layoutName name st of (name', st1) \<Rightarrow>
      case reformatLayoutItems props r 0 items False st1 of (items', vf, st2) \<Rightarrow>
        (Layout cls (Some name') items' (Some vf), vf, st2))"
| "reformatLayoutItems props r i [] vf st = ([], vf, st)"
| "reformatLayoutItems props r i (Item row col rowspan colspan c # rest) vf st =
     (case (case c of
              CWidget w \<Rightarrow>
                (case reformatWidgetNamed props (r @ [ItemAt i]) (wname w) w st of
                   (w', v, s) \<Rightarrow> (CWidget w', v, s))
            | CSpacer sp \<Rightarrow>
                (CSpacer (Spacer (sname sp) (PMap (reformatProps (sproperty sp)))),
                 getMember (reformatProps (sproperty sp)) ''orientation'' = JString ''Qt::Vertical'',
                 st)
            | CLayout l \<Rightarrow>
                (case reformatLayout props (r @ [ItemAt i]) l st of
                   (l', v, s) \<Rightarrow> (CLayout l', v, s))
            | CEmpty \<Rightarrow> (CEmpty, False, st)) of (c', v, st1) \<Rightarrow>
      case reformatLayoutItems props r (Suc i) rest (vf \<or> v) st1 of (rest', vf', st2) \<Rightarrow>
        (Item row col rowspan colspan c' # rest', vf', st2))"


definition reformatWidget ::
  "form_props \<Rightarrow> ref \<Rightarrow> widget \<Rightarrow> parse_state \<Rightarrow> widget \<times> bool \<times> parse_state" where
  "reformatWidget props r widget st = reformatWidgetNamed props r (wname widget) widget st"


subsection \<open>Rendering a combo box and a relation table\<close>

datatype js_error = TypeError

text \<open>
  \<open>renderWidget\<close> on a widget of class \<open>QComboBox\<close>: \<open>null\<close> when the property
  \<open>visible\<close> reads \<open>false\<close>, the combo field otherwise. The name of a reformatted
  widget is a string; without one, \<open>widget.name.startsWith\<close> throws.
\<close>

definition renderWidgetComboBox ::
  "string \<Rightarrow> (string \<Rightarrow> string) \<Rightarrow> (string \<rightharpoonup> string) \<Rightarrow> widget
     \<Rightarrow> js_error + combo option" where
  "renderWidgetComboBox pfx nametransform properties widget =
     (if jvalText (propertyOf (wproperty widget) ''visible'') = ''false'' then Inr None
      else case wname widget of
        None \<Rightarrow> Inl TypeError
      | Some name \<Rightarrow> Inr (Some (renderComboBox pfx nametransform properties name)))"

text \<open>
  \<open>renderNRelation\<close>, as far as the controls of the rows go: for each record of the
  dataset (\<open>rowCount\<close> of them) whether the arrows that reorder it and the icon that
  removes it are shown. Nothing is rendered for a name of fewer than three parts.
  Past that test, \<open>widget.layout.item\<close> is read, which throws for a widget without a
  layout.
\<close>

record relation_row =
  reorderArrows :: bool
  removeIcon :: bool

definition renderNRelation :: "bool \<Rightarrow> nat \<Rightarrow> widget \<Rightarrow> js_error + relation_row list option" where
  "renderNRelation readOnly rowCount widget =
     (case wname widget of
        None \<Rightarrow> Inl TypeError
      | Some name \<Rightarrow>
          let parts = splitName name
          in if length parts < 3 then Inr None
             else let disabled = (jvalText (propertyOf (wproperty widget) ''enabled'') = ''false'');
                      sortcol = truthyOr (idx parts 3);
                      noreorder = truthyOr (idx parts 4)
                  in case wlayout widget of
                       None \<Rightarrow> Inl TypeError
                     | Some l \<Rightarrow>
                         Inr (Some (replicate rowCount
                           \<lparr>reorderArrows = (\<not> readOnly \<and> \<not> disabled \<and> sortcol \<noteq> None
                                              \<and> noreorder = None),
                            removeIcon = (\<not> readOnly \<and> \<not> disabled)\<rparr>)))"


subsection \<open>Column sizes of a layout\<close>

text \<open>
  \<open>parseInt(s, 10)\<close>: white space is skipped, a sign is read, then the longest run of
  decimal digits; \<open>None\<close> is NaN, which is also the result for \<open>undefined\<close>.
\<close>

definition isWhiteSpace :: "char \<Rightarrow> bool" where
  "isWhiteSpace c = (c \<in> set [CHR '' '', CHR 0x09, CHR 0x0A, CHR 0x0B, CHR 0x0C, CHR 0x0D])"

definition isDigit :: "char \<Rightarrow> bool" where
  "isDigit c = (48 \<le> (of_char c :: nat) \<and> (of_char c :: nat) \<le> 57)"

definition digitsValue :: "string \<Rightarrow> nat" where
  "digitsValue ds = foldl (\<lambda>acc d. 10 * acc + (of_char d - 48)) 0 ds"

definition parseInt :: "string option \<Rightarrow> int option" where
  "parseInt v =
     (case v of
        None \<Rightarrow> None
      | Some s \<Rightarrow>
          (case dropWhile isWhiteSpace s of
             [] \<Rightarrow> None
           | c # cs \<Rightarrow>
               let negative = (c = CHR ''-'');
                   rest = (if c = CHR ''-'' \<or> c = CHR ''+'' then cs else c # cs);
                   ds = takeWhile isDigit rest
               in if ds = [] then None
                  else Some (if negative then - int (digitsValue ds) else int (digitsValue ds))))"

text \<open>\<open>parseInt(v, 10) || d\<close>: NaN and zero give the default.\<close>

definition parseIntOr :: "string option \<Rightarrow> int \<Rightarrow> int" where
  "parseIntOr v d = (case parseInt v of None \<Rightarrow> d | Some n \<Rightarrow> if n = 0 then d else n)"

text \<open>
  The array \<open>columns\<close> while it is filled: a cell is \<open>'auto'\<close> (\<open>Some ''auto''\<close>) or
  falsy (\<open>None\<close>: a hole of the sparse array or the placeholder \<open>null\<close>). Writing at an
  index past the end makes the array longer (\<open>padded\<close> adds the holes up to it). An index that is negative or not below
  \<open>2^32 - 1\<close> is no array index: the write sets a property and leaves the elements
  and the length as they are.
\<close>

definition arrayIndexLimit :: int where
  "arrayIndexLimit = 4294967295"

definition padded :: "nat \<Rightarrow> string option list \<Rightarrow> string option list" where
  "padded n columns = columns @ replicate (Suc n - length columns) None"

definition writeCell :: "int \<Rightarrow> string option \<Rightarrow> string option list \<Rightarrow> string option list" where
  "writeCell col v columns =
     (if 0 \<le> col \<and> col < arrayIndexLimit
      then (padded (nat col) columns)[nat col := v]
      else columns)"

definition readCell :: "int \<Rightarrow> string option list \<Rightarrow> string option" where
  "readCell col columns =
     (if 0 \<le> col \<and> nat col < length columns then columns ! nat col else None)"

text \<open>\<open>item.spacer?.property?.orientation === "Qt::Horizontal"\<close>\<close>

definition horizontalSpacer :: "item \<Rightarrow> bool" where
  "horizontalSpacer item =
     (case icontent item of
        CSpacer sp \<Rightarrow> orientation (sproperty sp) = JString ''Qt::Horizontal''
      | _ \<Rightarrow> False)"

text \<open>\<open>item.widget?.class\<close>\<close>

definition widgetClass :: "item \<Rightarrow> string option" where
  "widgetClass item = (case icontent item of CWidget w \<Rightarrow> wclass w | _ \<Rightarrow> None)"

definition columnOf :: "bool \<Rightarrow> nat \<Rightarrow> item \<Rightarrow> int" where
  "columnOf useIndex index item = (if useIndex then int index else parseIntOr (icolumn item) 0)"

definition colSpanOf :: "bool \<Rightarrow> item \<Rightarrow> int" where
  "colSpanOf useIndex item = (if useIndex then 1 else parseIntOr (icolspan item) 1)"

text \<open>
  The body of \<open>items.forEach((item, index) => ...)\<close> on the pair of \<open>columns\<close> and
  \<open>hasAuto\<close>, and the loop itself.
\<close>

definition columnStep ::
  "bool \<Rightarrow> bool \<Rightarrow> nat \<Rightarrow> item \<Rightarrow> string option list \<times> bool \<Rightarrow> string option list \<times> bool" where
  "columnStep useIndex hasSpacer index item acc =
     (let columns = fst acc;
          hasAuto = snd acc;
          col = columnOf useIndex index item;
          colSpan = colSpanOf useIndex item
      in if horizontalSpacer item then (writeCell col (Some ''auto'') columns, True)
         else if \<not> hasSpacer \<and> \<not> includesClass hFitWidgets (widgetClass item) \<and> colSpan = 1
         then (writeCell col (Some ''auto'') columns, True)
         else (writeCell col (readCell col columns) columns, hasAuto))"

fun columnLoop ::
  "bool \<Rightarrow> bool \<Rightarrow> nat \<Rightarrow> item list \<Rightarrow> string option list \<times> bool \<Rightarrow> string option list \<times> bool" where
  "columnLoop useIndex hasSpacer index [] acc = acc"
| "columnLoop useIndex hasSpacer index (item # items) acc =
     columnLoop useIndex hasSpacer (Suc index) items (columnStep useIndex hasSpacer index item acc)"

text \<open>
  \<open>Math.round(1 / n * 100)\<close> for a length \<open>n > 0\<close>: \<open>100 / n\<close> to the nearest
  integer, a tie going up.
\<close>

definition roundPercent :: "nat \<Rightarrow> nat" where
  "roundPercent n = (200 + n) div (2 * n)"

definition fitContent :: "nat \<Rightarrow> string" where
  "fitContent n = ''fit-content('' @ numberToString (roundPercent n) @ ''%)''"

definition computeLayoutColumns :: "item list \<Rightarrow> bool \<Rightarrow> string list" where
  "computeLayoutColumns items useIndex =
     (let hasSpacer = (find horizontalSpacer items \<noteq> None);
          filled = columnLoop useIndex hasSpacer 0 items ([], False);
          columns = fst filled;
          hasAuto = snd filled;
          fit = fitContent (length columns)
      in map (\<lambda>cell. if hasAuto then (case cell of None \<Rightarrow> fit | Some s \<Rightarrow> s) else ''auto'')
           columns)"


section \<open>QtDesignerForm: loading a form\<close>

text \<open>
  \<open>formData\<close>: the parsed document, whose root widget is \<open>ui.widget\<close>, with the
  registries that \<open>parseForm\<close> attaches to it.
\<close>

record form_data =
  ui_widget :: widget
  fd_externalFields :: "(string \<times> string) list"
  fd_widgets :: "(string \<times> ref) list"
  fd_fields :: "(string \<times> ref) list"
  fd_buttons :: "(string \<times> ref) list"
  fd_nrels :: "(string \<times> ref) list"

text \<open>
  The component state. \<open>defaultState\<close> has the keys \<open>activetabs\<close>, \<open>formdata\<close>,
  \<open>loading\<close>, \<open>loadingReqId\<close> and \<open>relationAddPressed\<close>; \<open>parseForm\<close> and \<open>render\<close>
  use the key \<open>formData\<close>, which \<open>defaultState\<close> does not have. The request
  identifier is the value of \<open>uuidv1()\<close>, taken as a number here.
\<close>

record form_state =
  activetabs :: "(string \<times> string) list"
  formdata :: "unit option"
  formData :: "form_data option"
  loading :: bool
  loadingReqId :: "nat option"
  relationAddPressed :: bool

definition defaultState :: form_state where
  "defaultState =
     \<lparr>activetabs = [], formdata = None, formData = None, loading = False,
      loadingReqId = None, relationAddPressed = False\<rparr>"

text \<open>The props that trigger a load: \<open>form\<close> and \<open>feature.__version__\<close>.\<close>

record load_props =
  form :: string
  feature_version :: int

text \<open>
  The first half of \<open>componentDidUpdate\<close>. \<open>prevProps\<close> is \<open>None\<close> for the call from
  \<open>componentDidMount\<close>. When the form or the version has changed, the keys of
  \<open>defaultState\<close> are reset (\<open>formData\<close> is not one of them), \<open>activetabs\<close> is kept
  for the same form, and the form is requested; the result names the form requested.
\<close>

definition formDidUpdate ::
  "load_props option \<Rightarrow> load_props \<Rightarrow> form_state \<Rightarrow> form_state \<times> string option" where
  "formDidUpdate prevProps props st =
     (if (case prevProps of
            None \<Rightarrow> True
          | Some prev \<Rightarrow> form props \<noteq> form prev \<or> feature_version props \<noteq> feature_version prev)
      then (st\<lparr>activetabs := (if map_option form prevProps = Some (form props)
                               then activetabs st else []),
               formdata := None, loading := False, loadingReqId := None,
               relationAddPressed := False\<rparr>,
            Some (form props))
      else (st, None))"

text \<open>
  The tree and registries that \<open>parseForm\<close> builds from the root widget of the parsed
  document, and the \<open>relationTables\<close> it hands to \<open>setRelationTables\<close>.
\<close>

definition parseTree :: "form_props \<Rightarrow> widget \<Rightarrow> form_data \<times> (string \<times> relation_table) list" where
  "parseTree props rootWidget =
     (case reformatWidget props [] rootWidget emptyRegistries of
        (widget', verticalFill, regs) \<Rightarrow>
          (\<lparr>ui_widget = widget', fd_externalFields = externalFields regs,
            fd_widgets = widgets regs, fd_fields = fieldsMap regs,
            fd_buttons = buttons regs, fd_nrels = nrels regs\<rparr>,
           relationTables regs))"

text \<open>
  \<open>parseForm(data)\<close>. \<open>xmlParse\<close> is the XML parser, giving the root widget of the
  document; \<open>preprocessor\<close> tells whether \<open>FormPreprocessors[editLayerId]\<close> is set;
  \<open>reqId\<close> is the identifier that \<open>uuidv1()\<close> returns. The result is the state, the
  document handed to the preprocessor if there is one, and the relation tables pushed.
\<close>

definition parseForm ::
  "(string \<Rightarrow> widget) \<Rightarrow> form_props \<Rightarrow> bool \<Rightarrow> nat \<Rightarrow> string \<Rightarrow> form_state
     \<Rightarrow> form_state \<times> form_data option \<times> (string \<times> relation_table) list" where
  "parseForm xmlParse props preprocessor reqId data st =
     (let st1 = st\<lparr>loading := True, loadingReqId := Some reqId\<rparr>;
          parsed = parseTree props (xmlParse data);
          json = fst parsed
      in if preprocessor then (st1, Some json, snd parsed)
         else (st1\<lparr>formData := Some json, loading := False, loadingReqId := None\<rparr>,
               None, snd parsed))"

text \<open>
  The callback that \<open>parseForm\<close> gives to the preprocessor, for the request \<open>reqId\<close>.
\<close>

definition preprocessorCallback :: "nat \<Rightarrow> form_data \<Rightarrow> form_state \<Rightarrow> form_state" where
  "preprocessorCallback reqId formData' st =
     (if loadingReqId st = Some reqId
      then st\<lparr>formData := Some formData', loading := False, loadingReqId := None\<rparr>
      else st)"

text \<open>
  \<open>root.layout.item\<close> of \<open>render\<close>, the items of the layout of the root widget
  (\<open>renderLayout\<close> renders nothing without a layout).
\<close>

definition rootLayoutItems :: "form_data \<Rightarrow> item list" where
  "rootLayoutItems fd = (case wlayout (ui_widget fd) of None \<Rightarrow> [] | Some l \<Rightarrow> litem l)"

text \<open>
  The component among its callers. An event is an update of the props, the response
  to the \<open>k\<close>-th request sent (\<open>axios\<close> then calls \<open>parseForm\<close>), or the preprocessor
  calling back for a request identifier. The configuration holds the component state,
  the forms requested so far in the order of the requests, and the number of
  identifiers issued, which is the next identifier.
\<close>

datatype event =
  PropsChange "load_props option" load_props
| Response nat string
| Callback nat form_data

record config =
  component :: form_state
  requested :: "string list"
  issued :: nat

definition initialConfig :: config where
  "initialConfig = \<lparr>component = defaultState, requested = [], issued = 0\<rparr>"

fun step :: "(string \<Rightarrow> widget) \<Rightarrow> form_props \<Rightarrow> bool \<Rightarrow> config \<Rightarrow> event \<Rightarrow> config" where
  "step xmlParse props preprocessor cfg (PropsChange prevProps newProps) =
     (case formDidUpdate prevProps newProps (component cfg) of
        (st, None) \<Rightarrow> cfg\<lparr>component := st\<rparr>
      | (st, Some url) \<Rightarrow> cfg\<lparr>component := st, requested := requested cfg @ [url]\<rparr>)"
| "step xmlParse props preprocessor cfg (Response k data) =
     (if k < length (requested cfg)
      then cfg\<lparr>component :=
                 fst (parseForm xmlParse props preprocessor (issued cfg) data (component cfg)),
               issued := Suc (issued cfg)\<rparr>
      else cfg)"
| "step xmlParse props preprocessor cfg (Callback reqId formData') =
     cfg\<lparr>component := preprocessorCallback reqId formData' (component cfg)\<rparr>"

definition run :: "(string \<Rightarrow> widget) \<Rightarrow> form_props \<Rightarrow> bool \<Rightarrow> event list \<Rightarrow> config" where
  "run xmlParse props preprocessor events =
     foldl (step xmlParse props preprocessor) initialConfig events"


section \<open>Properties of a reformatted tree\<close>




text \<open>
  The descriptors that a parse writes into \<open>relationTables\<close>, in the order in which
  it writes them: a widget writes its own after those of its entries, its layout and
  its pages. \<open>name\<close> is the name the widget has when \<open>reformatWidget\<close> starts on it;
  a page has lost the name of the document by then, and a synthetic name writes nothing.
\<close>

definition descriptorOf :: "form_props \<Rightarrow> string option \<Rightarrow> (string \<times> relation_table) list" where
  "descriptorOf props name =
     (case truthyOr name of
        None \<Rightarrow> []
      | Some n \<Rightarrow> (case relationTableOf (mapPrefix props) n of None \<Rightarrow> [] | Some entry \<Rightarrow> [entry]))"

fun descriptorsOfWidget :: "form_props \<Rightarrow> string option \<Rightarrow> widget \<Rightarrow> (string \<times> relation_table) list"
and descriptorsOfEntries :: "form_props \<Rightarrow> widget list \<Rightarrow> (string \<times> relation_table) list"
and descriptorsOfPages :: "form_props \<Rightarrow> widget list \<Rightarrow> (string \<times> relation_table) list"
and descriptorsOfLayout :: "form_props \<Rightarrow> layout \<Rightarrow> (string \<times> relation_table) list"
and descriptorsOfItems :: "form_props \<Rightarrow> item list \<Rightarrow> (string \<times> relation_table) list"
where
  "descriptorsOfWidget props name (Widget cls n0 property attribute entries lay pages) =
     descriptorsOfEntries props entries @
     (case lay of None \<Rightarrow> [] | Some l \<Rightarrow> descriptorsOfLayout props l) @
     descriptorsOfPages props pages @
     descriptorOf props name"
| "descriptorsOfEntries props [] = []"
| "descriptorsOfEntries props (w # ws) =
     descriptorsOfWidget props (wname w) w @ descriptorsOfEntries props ws"
| "descriptorsOfPages props [] = []"
| "descriptorsOfPages props (w # ws) =
     descriptorsOfWidget props None w @ descriptorsOfPages props ws"
| "descriptorsOfLayout props (Layout cls name items vf) = descriptorsOfItems props items"
| "descriptorsOfItems props [] = []"
| "descriptorsOfItems props (Item row col rowspan colspan c # rest) =
     (case c of
        CWidget w \<Rightarrow> descriptorsOfWidget props (wname w) w
      | CLayout l \<Rightarrow> descriptorsOfLayout props l
      | _ \<Rightarrow> []) @
     descriptorsOfItems props rest"

text \<open>Writing descriptors into \<open>relationTables\<close> one after the other.\<close>

definition writeTables ::
  "(string \<times> relation_table) list \<Rightarrow> (string \<times> relation_table) list
     \<Rightarrow> (string \<times> relation_table) list" where
  "writeTables tables entries = foldl (\<lambda>t entry. AList.update (fst entry) (snd entry) t) tables entries"

text \<open>
  Two trees of the same structure: the same classes, properties, attributes, layout
  nesting, positions and \<open>verticalFill\<close>, and the same names but for synthetic ones,
  which may be numbered differently.
\<close>

definition sameName :: "string \<Rightarrow> string option \<Rightarrow> string option \<Rightarrow> bool" where
  "sameName synthetic a b =
     (a = b \<or>
      (case a of
         None \<Rightarrow> False
       | Some x \<Rightarrow> (case b of None \<Rightarrow> False
                            | Some y \<Rightarrow> startsWith x synthetic \<and> startsWith y synthetic)))"

fun sameStructure :: "widget \<Rightarrow> widget \<Rightarrow> bool"
and sameStructures :: "widget list \<Rightarrow> widget list \<Rightarrow> bool"
and sameLayout :: "layout \<Rightarrow> layout \<Rightarrow> bool"
and sameItems :: "item list \<Rightarrow> item list \<Rightarrow> bool"
where
  "sameStructure (Widget cls name property attribute entries lay pages) w' =
     (wclass w' = cls \<and> sameName '':widget_'' name (wname w') \<and> wproperty w' = property \<and>
      wattribute w' = attribute \<and> sameStructures entries (witem w') \<and>
      (case lay of
         None \<Rightarrow> wlayout w' = None
       | Some l \<Rightarrow> (case wlayout w' of None \<Rightarrow> False | Some l' \<Rightarrow> sameLayout l l')) \<and>
      sameStructures pages (wwidget w'))"
| "sameStructures [] ws' = (ws' = [])"
| "sameStructures (w # ws) ws' =
     (case ws' of [] \<Rightarrow> False | w' # rest' \<Rightarrow> sameStructure w w' \<and> sameStructures ws rest')"
| "sameLayout (Layout cls name items vf) l' =
     (lclass l' = cls \<and> sameName '':layout_'' name (lname l') \<and> sameItems items (litem l') \<and>
      lverticalFill l' = vf)"
| "sameItems [] items' = (items' = [])"
| "sameItems (Item row col rowspan colspan c # rest) items' =
     (case items' of
        [] \<Rightarrow> False
      | i' # rest' \<Rightarrow>
          irow i' = row \<and> icolumn i' = col \<and> irowspan i' = rowspan \<and> icolspan i' = colspan \<and>
          (case c of
             CWidget w \<Rightarrow> (case icontent i' of CWidget w' \<Rightarrow> sameStructure w w' | _ \<Rightarrow> False)
           | CSpacer sp \<Rightarrow> icontent i' = CSpacer sp
           | CLayout l \<Rightarrow> (case icontent i' of CLayout l' \<Rightarrow> sameLayout l l' | _ \<Rightarrow> False)
           | CEmpty \<Rightarrow> icontent i' = CEmpty) \<and>
          sameItems rest rest')"

text \<open>
  The request identifier in the state, if there is one, is the last one issued.
\<close>

definition latestRequestOnly :: "config \<Rightarrow> bool" where
  "latestRequestOnly cfg =
     (case loadingReqId (component cfg) of None \<Rightarrow> True | Some r \<Rightarrow> Suc r = issued cfg)"


section \<open>Forms to run the definitions on\<close>

text \<open>
  A form with a label in column 0 and a horizontal spacer in column 1 of a grid, a
  relation table, a combo box with two entries and a tab widget with one page.
\<close>

definition labelItem :: item where
  "labelItem =
     Item (Some ''0'') (Some ''0'') None None
       (CWidget (Widget (Some ''QLabel'') (Some ''label'')
          (PRaw [[(''name'', JString ''text''), (''string'', JString ''Name'')]]) PAbsent [] None []))"

definition spacerItem :: item where
  "spacerItem =
     Item (Some ''0'') (Some ''1'') None None
       (CSpacer (Spacer (Some ''hs'')
          (PRaw [[(''name'', JString ''orientation''), (''enum'', JString ''Qt::Horizontal'')]])))"

definition relationItem :: item where
  "relationItem =
     Item (Some ''1'') (Some ''0'') None (Some ''2'')
       (CWidget (Widget (Some ''QWidget'') (Some ''nrel__pipes__parent_id__pos__1'')
          PAbsent PAbsent [] (Some (Layout (Some ''QGridLayout'') None [] None)) []))"

definition comboItem :: item where
  "comboItem =
     Item (Some ''2'') (Some ''0'') None None
       (CWidget (Widget (Some ''QComboBox'') (Some ''kvrel__kind__kinds__id__label'')
          PAbsent PAbsent
          [Widget None None (PRaw [[(''name'', JString ''text''), (''string'', JString ''A'')]])
             PAbsent [] None []]
          None []))"

definition tabItem :: item where
  "tabItem =
     Item (Some ''3'') (Some ''0'') None None
       (CWidget (Widget (Some ''QTabWidget'') None PAbsent PAbsent [] None
          [Widget (Some ''QWidget'') (Some ''page'') PAbsent
             (PRaw [[(''name'', JString ''title''), (''string'', JString ''Page'')]]) []
             (Some (Layout (Some ''QVBoxLayout'') (Some ''vbox'') [] None)) []]))"

definition sampleForm :: widget where
  "sampleForm =
     Widget (Some ''QWidget'') (Some ''Form'') PAbsent PAbsent []
       (Some (Layout (Some ''QGridLayout'') (Some ''grid'')
          [labelItem, spacerItem, relationItem, comboItem, tabItem] None)) []"

text \<open>
  A form with two relation tables of the table \<open>pipes\<close>, and a form whose relation
  table \<open>pipes\<close> has no sort column.
\<close>

definition twoRelationsForm :: widget where
  "twoRelationsForm =
     Widget (Some ''QWidget'') (Some ''Form'') PAbsent PAbsent []
       (Some (Layout (Some ''QGridLayout'') (Some ''grid'')
          [Item (Some ''0'') (Some ''0'') None None
             (CWidget (Widget (Some ''QWidget'') (Some ''nrel__pipes__parent_id__pos__1'')
                PAbsent PAbsent [] (Some (Layout (Some ''QGridLayout'') (Some ''first'') [] None)) [])),
           Item (Some ''1'') (Some ''0'') None None
             (CWidget (Widget (Some ''QWidget'') (Some ''nrel__pipes__other_id'')
                PAbsent PAbsent [] (Some (Layout (Some ''QGridLayout'') (Some ''second'') [] None)) []))]
          None)) []"

definition plainRelation :: widget where
  "plainRelation =
     Widget (Some ''QWidget'') (Some ''nrel__pipes__parent_id'') (PMap []) (PMap []) []
       (Some (Layout (Some ''QGridLayout'') (Some ''rows'') [] (Some False))) []"

definition sortedRelation :: widget where
  "sortedRelation =
     Widget (Some ''QWidget'') (Some ''nrel__pipes__parent_id__pos__1'') (PMap []) (PMap []) []
       (Some (Layout (Some ''QGridLayout'') (Some ''rows'') [] (Some False))) []"

definition sampleProps :: form_props where
  "sampleProps = \<lparr>mapPrefix = ''map.'', fieldKeys = [''kind'', ''label'']\<rparr>"

text \<open>
  A parser whose documents are single labels, named by the text parsed.
\<close>

definition sampleParse :: "string \<Rightarrow> widget" where
  "sampleParse data = Widget (Some ''QLabel'') (Some data) PAbsent PAbsent [] None []"

text \<open>
  The items of a reformatted grid: a line edit in column 0 and a horizontal spacer in
  column 1.
\<close>

definition sampleGrid :: "item list" where
  "sampleGrid =
     [Item (Some ''0'') (Some ''0'') None None
        (CWidget (Widget (Some ''QLineEdit'') (Some ''name'') (PMap []) (PMap []) [] None [])),
      Item (Some ''0'') (Some ''1'') None None
        (CSpacer (Spacer (Some ''hs'') (PMap [(''orientation'', JString ''Qt::Horizontal'')])))]"

definition loadA :: load_props where
  "loadA = \<lparr>form = ''a.ui'', feature_version = 1\<rparr>"

definition loadB :: load_props where
  "loadB = \<lparr>form = ''b.ui'', feature_version = 1\<rparr>"


section \<open>MapInfoTooltip: what a click does\<close>

lemma componentDidUpdate_same_pixel:
  "map_click prevProps = Some oldPoint \<Longrightarrow> map_click props = Some newPoint \<Longrightarrow>
   samePixel oldPoint newPoint \<Longrightarrow> snd (componentDidUpdate cfg prevProps props st) = []"
  by (simp add: componentDidUpdate_def)

lemma componentDidUpdate_new_pixel:
  "enabled props \<Longrightarrow> map_click props = Some newPoint \<Longrightarrow> button newPoint = 2 \<Longrightarrow>
   map_click prevProps = Some oldPoint \<Longrightarrow> \<not> samePixel oldPoint newPoint \<Longrightarrow>
   componentDidUpdate cfg prevProps props st =
     (st\<lparr>point := Some newPoint, elevation := None\<rparr>, issueFetches cfg props newPoint)"
  by (simp add: componentDidUpdate_def)

text \<open>
  Claim C3. A right-click at a new pixel is to clear the elevation and the extra
  map-info rows and to record the point. The code records the point and clears the
  elevation, and leaves \<open>extraInfo\<close> as it is: after a first click whose map-info
  response has arrived, a second click at another pixel still shows the rows of the
  first.
\<close>

theorem new_click_keeps_extraInfo:
  "componentDidUpdate bothServices (propsWithClick (Some click1)) (propsWithClick (Some click2))
     (onMapInfoResponse (Some [(''Parcel'', ''12'')])
        (fst (componentDidUpdate bothServices (propsWithClick None) (propsWithClick (Some click1))
                initial_tooltip_state)))
   = (\<lparr>point = Some click2, elevation = None, extraInfo = Some [(''Parcel'', ''12'')],
       height = HeightAbsent\<rparr>,
      [ElevationFetch ''/elevation/getelevation'' [3, 4] ''EPSG:3857'',
       MapInfoFetch ''/mapinfo'' [3, 4] ''EPSG:3857''])"
  by (simp add: componentDidUpdate_def propsWithClick_def click1_def click2_def samePixel_def
        onMapInfoResponse_def initial_tooltip_state_def issueFetches_def bothServices_def
        elevationService_def stripTrailingSlash_def)

text \<open>
  Claim C9, as stated, at a concrete state: \<open>clear\<close> keeps the elevation 5, but the
  next popup does not show it, since the update that sets its point sets the elevation
  to \<open>null\<close>.
\<close>

theorem elevation_reset_by_next_popup:
  "elevation (clear \<lparr>point = Some click1, elevation = Some (Num 5), extraInfo = None,
                     height = HeightAbsent\<rparr>) = Some (Num 5)
   \<and> fst (componentDidUpdate bothServices (propsWithClick (Some click1))
            (propsWithClick (Some click2))
            (clear \<lparr>point = Some click1, elevation = Some (Num 5), extraInfo = None,
                    height = HeightAbsent\<rparr>))
     = \<lparr>point = Some click2, elevation = None, extraInfo = None, height = HeightNull\<rparr>"
  by (simp add: clear_def componentDidUpdate_def propsWithClick_def click1_def click2_def
        samePixel_def)

text \<open>
  Claim C9, amended. \<open>clear\<close> sets \<open>point\<close> and \<open>extraInfo\<close> to \<open>null\<close>, writes the
  key \<open>height\<close> and leaves \<open>elevation\<close> unchanged; the value kept stays in the state
  only while no popup is shown, because an update that gives the cleared state a point
  again sets \<open>elevation\<close> to \<open>null\<close> with it.
\<close>

theorem clear_keeps_elevation_until_next_popup:
  "elevation (clear st) = elevation st \<and> point (clear st) = None \<and> extraInfo (clear st) = None
   \<and> height (clear st) = HeightNull
   \<and> (point (fst (componentDidUpdate cfg prevProps props (clear st))) \<noteq> None
        \<longrightarrow> elevation (fst (componentDidUpdate cfg prevProps props (clear st))) = None)"
  by (auto simp add: clear_def componentDidUpdate_def split: option.splits if_splits)

theorem clear_keeps_elevation_until_next_popup_witness:
  "point (fst (componentDidUpdate bothServices (propsWithClick (Some click1))
                 (propsWithClick (Some click2))
                 (clear \<lparr>point = Some click1, elevation = Some (Num 5), extraInfo = None,
                         height = HeightAbsent\<rparr>))) \<noteq> None
   \<and> elevation (fst (componentDidUpdate bothServices (propsWithClick (Some click1))
                 (propsWithClick (Some click2))
                 (clear \<lparr>point = Some click1, elevation = Some (Num 5), extraInfo = None,
                         height = HeightAbsent\<rparr>))) = None"
proof -
  have h: "point (fst (componentDidUpdate bothServices (propsWithClick (Some click1))
                 (propsWithClick (Some click2))
                 (clear \<lparr>point = Some click1, elevation = Some (Num 5), extraInfo = None,
                         height = HeightAbsent\<rparr>))) \<noteq> None"
    by (simp add: clear_def componentDidUpdate_def propsWithClick_def click1_def click2_def
          samePixel_def)
  show ?thesis
    using h clear_keeps_elevation_until_next_popup
            [of "\<lparr>point = Some click1, elevation = Some (Num 5), extraInfo = None,
                   height = HeightAbsent\<rparr>"
                bothServices "propsWithClick (Some click1)" "propsWithClick (Some click2)"]
    by blast
qed

text \<open>
  Claim C10. The popup has an elevation row exactly when the stored elevation is
  truthy, so a response whose rounded elevation is zero (of either sign) leaves the
  popup without that row: its rows are the coordinate rows followed by the extra rows.
  The rounding is the double arithmetic of the handler, whatever it gives.
\<close>

theorem zero_elevation_row_omitted:
  "(render env props st = None \<longleftrightarrow> point st = None) \<and>
   (point st = Some p \<longrightarrow>
      render env props st = Some (coordinateRows env props p @ elevationRows env st @ extraRows st)
      \<and> (elevationRows env st \<noteq> [] \<longleftrightarrow> truthyElevation st)
      \<and> (rounding prec e = Num 0 \<longrightarrow>
           render env props (onElevationResponse rounding prec e st)
             = Some (coordinateRows env props p @ extraRows st)))"
  by (auto simp add: render_def coordinateRows_def extraRows_def elevationRows_def
        truthyElevation_def onElevationResponse_def split: option.splits)

theorem zero_elevation_row_omitted_witness:
  "point \<lparr>point = Some click1, elevation = Some (Num 7), extraInfo = Some [(''Parcel'', ''12'')],
          height = HeightAbsent\<rparr> = Some click1
   \<and> roundingAtPrecision0 0 (Num (1 / 4)) = Num 0
   \<and> render plainEnv (propsWithClick (Some click1))
        (onElevationResponse roundingAtPrecision0 0 (Num (1 / 4))
           \<lparr>point = Some click1, elevation = Some (Num 7),
            extraInfo = Some [(''Parcel'', ''12'')], height = HeightAbsent\<rparr>)
      = Some (coordinateRows plainEnv (propsWithClick (Some click1)) click1 @
              extraRows \<lparr>point = Some click1, elevation = Some (Num 7),
                         extraInfo = Some [(''Parcel'', ''12'')], height = HeightAbsent\<rparr>)"
proof -
  have h1: "point \<lparr>point = Some click1, elevation = Some (Num 7),
                   extraInfo = Some [(''Parcel'', ''12'')], height = HeightAbsent\<rparr> = Some click1"
    by simp
  have h2: "roundingAtPrecision0 0 (Num (1 / 4)) = Num 0"
    by code_simp
  show ?thesis
    using h1 h2 zero_elevation_row_omitted
            [of plainEnv "propsWithClick (Some click1)"
                "\<lparr>point = Some click1, elevation = Some (Num 7),
                  extraInfo = Some [(''Parcel'', ''12'')], height = HeightAbsent\<rparr>"
                click1 roundingAtPrecision0 0 "Num (1 / 4)"]
    by blast
qed


section \<open>QtDesignerForm: the error message of a relation row\<close>

lemma buildErrMsg_data_errors:
  "ds \<noteq> [] \<Longrightarrow>
   buildErrMsg \<lparr>error = msg, error_details =
       \<lparr>geometry_errors = [], data_errors = ds, validation_errors = []\<rparr>\<rparr>
     = msg @ '':'' @ newline @ '' - '' @ join (newline @ '' - '') ds"
  by (simp add: buildErrMsg_def)

lemma buildErrMsg_bad_x_y:
  "buildErrMsg \<lparr>error = ''bad'', error_details =
       \<lparr>geometry_errors = [], data_errors = [''x'', ''y''], validation_errors = []\<rparr>\<rparr>
     = ''bad:'' @ newline @ '' - x'' @ newline @ '' - y''"
  by (simp add: buildErrMsg_def newline_def)

text \<open>
  Claim C4. Each list of error details is to follow the base error joined by
  newlines, every entry after \<open>" - "\<close>. The data and validation errors are joined so
  (the message for \<open>bad\<close> with the data errors \<open>x\<close> and \<open>y\<close> is as the claim gives it),
  but the geometry errors are added to the message as an array, which joins them with
  a comma: two geometry errors come out on one line.
\<close>

theorem buildErrMsg_geometry_errors_comma_joined:
  "buildErrMsg \<lparr>error = ''bad'', error_details =
       \<lparr>geometry_errors = [\<lparr>reason = ''hole'', location = ''1 1''\<rparr>,
                           \<lparr>reason = ''spike'', location = ''2 2''\<rparr>],
        data_errors = [], validation_errors = []\<rparr>\<rparr>
     = ''bad:'' @ newline @ '' - hole at 1 1, - spike at 2 2''"
  by (simp add: buildErrMsg_def newline_def)


section \<open>QtDesignerForm: names of the prefix grammar\<close>

text \<open>
  Claim C5, as stated, at the name \<open>kvrel__a__b__c__d\<close> under the map prefix \<open>map.\<close>:
  the relation key passed to the combo field is not \<open>b:c:d\<close>.
\<close>

theorem kvrel_keyvalrel_has_mapPrefix:
  "renderComboBox ''map.'' (\<lambda>n. n) Map.empty ''kvrel__a__b__c__d''
     = KvrelCombo ''a'' ''map.b:c:d'' ''a'' []
   \<and> keyvalrel (renderComboBox ''map.'' (\<lambda>n. n) Map.empty ''kvrel__a__b__c__d'') \<noteq> ''b:c:d''"
  by (simp add: renderComboBox_def splitName_def slice_def idx_def keyText_def Let_def)

text \<open>
  Claim C5, amended. For a combo box whose name splits into the five parts \<open>kvrel\<close>,
  \<open>a\<close>, \<open>b\<close>, \<open>c\<close>, \<open>d\<close>, the field id used for the value, the element name and the
  updates is \<open>a\<close>, and the relation key passed to the combo field is the map prefix
  followed by \<open>b:c:d\<close>.
\<close>

theorem kvrel_combo_binding:
  "splitName name = [''kvrel'', a, b, c, d] \<Longrightarrow>
   renderComboBox pfx nametransform properties name =
     KvrelCombo a (pfx @ b @ '':'' @ c @ '':'' @ d) (nametransform a)
       (case properties a of None \<Rightarrow> [] | Some v \<Rightarrow> v)"
  by (simp add: renderComboBox_def slice_def idx_def keyText_def)

theorem kvrel_combo_binding_witness:
  "splitName ''kvrel__a__b__c__d'' = [''kvrel'', ''a'', ''b'', ''c'', ''d''] \<and>
   renderComboBox ''map.'' (\<lambda>n. n @ ''__0'') [''a'' \<mapsto> ''7''] ''kvrel__a__b__c__d'' =
     KvrelCombo ''a'' ''map.b:c:d'' ''a__0'' ''7''"
proof -
  have h: "splitName ''kvrel__a__b__c__d'' = [''kvrel'', ''a'', ''b'', ''c'', ''d'']"
    by (simp add: splitName_def)
  show ?thesis
    using h kvrel_combo_binding [OF h, of "''map.''" "\<lambda>n. n @ ''__0''" "[''a'' \<mapsto> ''7'']"]
    by simp
qed

lemma renderWidgetComboBox_kvrel:
  "jvalText (propertyOf (wproperty w) ''visible'') \<noteq> ''false'' \<Longrightarrow> wname w = Some name \<Longrightarrow>
   splitName name = [''kvrel'', a, b, c, d] \<Longrightarrow>
   renderWidgetComboBox pfx nametransform properties w =
     Inr (Some (KvrelCombo a (pfx @ b @ '':'' @ c @ '':'' @ d) (nametransform a)
                  (case properties a of None \<Rightarrow> [] | Some v \<Rightarrow> v)))"
  by (simp add: renderWidgetComboBox_def renderComboBox_def slice_def idx_def keyText_def)

lemma splitName_nonempty: "splitName name = x # y # rest \<Longrightarrow> name \<noteq> []"
  by (auto simp add: splitName_def)

lemma splitFrom_first: "\<exists>q rest. splitFrom acc cs = (rev acc @ q) # rest"
  by (induction acc cs rule: splitFrom.induct) auto

lemma splitName_colon: "idx (splitName (CHR '':'' # cs)) 0 \<noteq> Some ''nrel''"
proof (cases cs)
  case Nil
  then show ?thesis by (simp add: splitName_def idx_def)
next
  case (Cons d ds)
  obtain q rest where "splitFrom [CHR '':''] (d # ds) = (rev [CHR '':''] @ q) # rest"
    using splitFrom_first by blast
  then show ?thesis using Cons by (simp add: splitName_def idx_def)
qed

lemma relationTableOf_synthetic: "relationTableOf pfx (CHR '':'' # cs) = None"
  using splitName_colon [of cs] by (simp add: relationTableOf_def Let_def)

lemma descriptorOf_synthetic: "descriptorOf props (Some (CHR '':'' # cs)) = []"
  by (simp add: descriptorOf_def truthyOr_def relationTableOf_synthetic)

lemma descriptorOf_None: "descriptorOf props None = []"
  by (simp add: descriptorOf_def truthyOr_def)

lemma descriptorsOfWidget_name:
  "descriptorOf props a = descriptorOf props b \<Longrightarrow>
   descriptorsOfWidget props a w = descriptorsOfWidget props b w"
  by (cases w) simp

lemma writeTables_append:
  "writeTables tables (xs @ ys) = writeTables (writeTables tables xs) ys"
  by (simp add: writeTables_def)

lemma writeTables_Nil: "writeTables tables [] = tables"
  by (simp add: writeTables_def)

lemma relationTables_classify: "relationTables (classify props r name st) = relationTables st"
  by (simp add: classify_def Let_def)

lemma relationTables_widgetName: "relationTables (snd (widgetName name st)) = relationTables st"
  by (simp add: widgetName_def split: option.splits)

lemma relationTables_layoutName: "relationTables (snd (layoutName name st)) = relationTables st"
  by (simp add: layoutName_def split: option.splits)

lemma storeRelationTable_descriptor:
  "relationTables (storeRelationTable props (fst (widgetName name s)) st)
     = writeTables (relationTables st) (descriptorOf props name)"
  by (auto simp add: storeRelationTable_def widgetName_def descriptorOf_def writeTables_def
        relationTableOf_synthetic split: option.splits)

lemma reformat_relationTables:
  "relationTables (snd (snd (reformatWidgetNamed props r name w st)))
     = writeTables (relationTables st) (descriptorsOfWidget props name w)"
  "relationTables (snd (snd (reformatEntries props r i ws vf st)))
     = writeTables (relationTables st) (descriptorsOfEntries props ws)"
  "relationTables (snd (snd (reformatPages props r i ws vf st)))
     = writeTables (relationTables st) (descriptorsOfPages props ws)"
  "relationTables (snd (snd (reformatLayout props r l st)))
     = writeTables (relationTables st) (descriptorsOfLayout props l)"
  "relationTables (snd (snd (reformatLayoutItems props r i its vf st)))
     = writeTables (relationTables st) (descriptorsOfItems props its)"
proof (induction props r name w st and props r i ws vf st and props r i ws vf st
         and props r l st and props r i its vf st
       rule: reformatWidgetNamed_reformatEntries_reformatPages_reformatLayout_reformatLayoutItems.induct)
  case (1 props r name cls n0 property attribute entries lay pages st)
  let ?e = "reformatEntries props r 0 entries False st"
  let ?n = "widgetName name (snd (snd ?e))"
  let ?c = "classify props r (fst ?n) (snd ?n)"
  let ?l = "case lay of
              None \<Rightarrow> (None, fst (snd ?e), ?c)
            | Some l \<Rightarrow>
                (case reformatLayout props (r @ [LayoutOf]) l ?c of
                   (l', v, s) \<Rightarrow> (Some l', fst (snd ?e) \<or> v, s))"
  have entries: "relationTables (snd (snd ?e))
                   = writeTables (relationTables st) (descriptorsOfEntries props entries)"
    by (rule "1.IH"(1))
  have classified: "relationTables ?c = relationTables (snd (snd ?e))"
    by (simp add: relationTables_classify relationTables_widgetName)
  have lay: "relationTables (snd (snd ?l))
               = writeTables (relationTables ?c)
                   (case lay of None \<Rightarrow> [] | Some l \<Rightarrow> descriptorsOfLayout props l)"
  proof (cases lay)
    case None
    then show ?thesis by (simp add: writeTables_Nil)
  next
    case (Some l)
    show ?thesis
      using "1.IH"(2) [OF prod.collapse prod.collapse prod.collapse Some] Some
      by (simp add: case_prod_beta)
  qed
  have pages: "relationTables (snd (snd (reformatPages props r 0 pages (fst (snd ?l)) (snd (snd ?l)))))
                 = writeTables (relationTables (snd (snd ?l))) (descriptorsOfPages props pages)"
    using "1.IH"(3) [OF prod.collapse prod.collapse prod.collapse prod.collapse prod.collapse] .
  show ?case
    using entries classified lay pages
    by (simp add: case_prod_beta storeRelationTable_descriptor writeTables_append)
next
  case (2 props r i vf st)
  then show ?case by (simp add: writeTables_Nil)
next
  case (3 props r i w ws vf st)
  show ?case
    using "3.IH"(1) "3.IH"(2) [OF prod.collapse prod.collapse]
    by (simp add: case_prod_beta writeTables_append)
next
  case (4 props r i vf st)
  then show ?case by (simp add: writeTables_Nil)
next
  case (5 props r i child ws vf st)
  have "descriptorsOfWidget props (Some ('':widget_'' @ numberToString (counters_widget st))) child
          = descriptorsOfWidget props None child"
    by (rule descriptorsOfWidget_name) (simp add: descriptorOf_synthetic descriptorOf_None)
  then show ?case
    using "5.IH"(1) "5.IH"(2) [OF prod.collapse prod.collapse]
    by (simp add: case_prod_beta writeTables_append)
next
  case (6 props r cls name items vfOld st)
  show ?case
    using "6.IH" [OF prod.collapse]
    by (simp add: case_prod_beta relationTables_layoutName)
next
  case (7 props r i vf st)
  then show ?case by (simp add: writeTables_Nil)
next
  case (8 props r i row col rowspan colspan c rest vf st)
  let ?h = "case c of
              CWidget w \<Rightarrow>
                (case reformatWidgetNamed props (r @ [ItemAt i]) (wname w) w st of
                   (w', v, s) \<Rightarrow> (CWidget w', v, s))
            | CSpacer sp \<Rightarrow>
                (CSpacer (Spacer (sname sp) (PMap (reformatProps (sproperty sp)))),
                 getMember (reformatProps (sproperty sp)) ''orientation'' = JString ''Qt::Vertical'',
                 st)
            | CLayout l \<Rightarrow>
                (case reformatLayout props (r @ [ItemAt i]) l st of
                   (l', v, s) \<Rightarrow> (CLayout l', v, s))
            | CEmpty \<Rightarrow> (CEmpty, False, st)"
  have head: "relationTables (snd (snd ?h))
                = writeTables (relationTables st)
                    (case c of
                       CWidget w \<Rightarrow> descriptorsOfWidget props (wname w) w
                     | CLayout l \<Rightarrow> descriptorsOfLayout props l
                     | _ \<Rightarrow> [])"
    using "8.IH"(1) "8.IH"(2)
    by (cases c) (simp_all add: case_prod_beta writeTables_Nil)
  have rest: "relationTables (snd (snd (reformatLayoutItems props r (Suc i) rest
                 (vf \<or> fst (snd ?h)) (snd (snd ?h)))))
                = writeTables (relationTables (snd (snd ?h))) (descriptorsOfItems props rest)"
    using "8.IH"(3) [OF prod.collapse prod.collapse] .
  show ?case
    using head rest by (simp add: case_prod_beta writeTables_append)
qed

lemma map_of_writeTables:
  "map_of (writeTables tables entries) key =
     (case map_of (rev entries) key of None \<Rightarrow> map_of tables key | Some d \<Rightarrow> Some d)"
proof (induction entries arbitrary: tables)
  case Nil
  then show ?case by (simp add: writeTables_def)
next
  case (Cons e es)
  have "writeTables tables (e # es) = writeTables (AList.update (fst e) (snd e) tables) es"
    by (simp add: writeTables_def)
  then show ?case
    using Cons.IH [of "AList.update (fst e) (snd e) tables"]
    by (cases e) (auto simp add: update_conv' map_add_def split: option.splits)
qed

lemma parseForm_relationTables:
  "map_of (snd (snd (parseForm xmlParse props pre reqId data st))) key =
     map_of (rev (descriptorsOfWidget props (wname (xmlParse data)) (xmlParse data))) key"
  using reformat_relationTables(1) [of props "[]" "wname (xmlParse data)" "xmlParse data" emptyRegistries]
  by (simp add: parseForm_def Let_def parseTree_def reformatWidget_def case_prod_beta
        map_of_writeTables emptyRegistries_def split: option.splits)

lemma reformatWidget_tables_written:
  "relationTables (snd (snd (reformatWidget props r w st)))
     = writeTables (relationTables st) (descriptorsOfWidget props (wname w) w)"
  unfolding reformatWidget_def by (rule reformat_relationTables(1))

lemma reformatWidget_relationTables:
  assumes "wname w = Some name" and "name \<noteq> []"
    and "relationTableOf (mapPrefix props) name = Some (key, table)"
  shows "map_of (relationTables (snd (snd (reformatWidget props r w st)))) key = Some table"
  using assms
  by (cases w)
     (simp add: reformatWidget_def widgetName_def truthyOr_def storeRelationTable_def
        update_conv' split: prod.splits)

text \<open>
  Claim C6, as stated, on a form with two relation widgets of the table \<open>pipes\<close>, the
  first named \<open>nrel__pipes__parent_id__pos__1\<close>: the descriptor pushed for \<open>pipes\<close> is
  that of the second widget, not the one the first name stands for. And a relation
  widget without the optional parts, for which \<open>noreorder\<close> is \<open>false\<close>, shows no
  arrows to reorder its rows.
\<close>

theorem later_relation_table_replaces_earlier:
  "map_of (snd (snd (parseForm (\<lambda>data. twoRelationsForm) sampleProps False 0 ''form'' defaultState)))
     ''map.pipes''
     = Some \<lparr>fk = ''other_id'', sortcol = None, noreorder = None\<rparr>
   \<and> renderNRelation False 2 plainRelation
     = Inr (Some [\<lparr>reorderArrows = False, removeIcon = True\<rparr>,
                  \<lparr>reorderArrows = False, removeIcon = True\<rparr>])"
proof -
  have "descriptorsOfWidget sampleProps (wname twoRelationsForm) twoRelationsForm
          = [(''map.pipes'', \<lparr>fk = ''parent_id'', sortcol = Some ''pos'', noreorder = Some ''1''\<rparr>),
             (''map.pipes'', \<lparr>fk = ''other_id'', sortcol = None, noreorder = None\<rparr>)]"
    by (simp add: twoRelationsForm_def sampleProps_def descriptorOf_def relationTableOf_def
          splitName_def idx_def keyText_def truthyOr_def)
  then have "map_of (snd (snd (parseForm (\<lambda>data. twoRelationsForm) sampleProps False 0 ''form''
                                 defaultState))) ''map.pipes''
               = Some \<lparr>fk = ''other_id'', sortcol = None, noreorder = None\<rparr>"
    by (simp add: parseForm_relationTables)
  moreover have "renderNRelation False 2 plainRelation
     = Inr (Some [\<lparr>reorderArrows = False, removeIcon = True\<rparr>,
                  \<lparr>reorderArrows = False, removeIcon = True\<rparr>])"
    by (simp add: renderNRelation_def plainRelation_def splitName_def idx_def truthyOr_def
          getMember_def numeral_2_eq_2)
  ultimately show ?thesis by simp
qed

text \<open>
  Claim C6, amended. For a widget that \<open>reformatWidget\<close> works on under the name
  \<open>nrel__t__fk__sort__noreorder\<close> (all parts non-empty), the descriptor written for the
  table \<open>t\<close>, under the map prefix, has the foreign key \<open>fk\<close>, the sort column
  \<open>sort\<close> and the truthy \<open>noreorder\<close> part, and \<open>renderNRelation\<close> shows no arrows to
  reorder on any row. Without the fifth part \<open>noreorder\<close> is \<open>false\<close> and the arrows
  are shown unless the form is read-only or the widget disabled; without the fourth as
  well, \<open>sortcol\<close> is \<open>null\<close>, \<open>noreorder\<close> is \<open>false\<close> and no arrows are shown,
  since they need a sort column. \<open>reformatWidget\<close> writes the descriptors of a widget
  and of all below it in the order \<open>descriptorsOfWidget\<close> gives, and the tables that
  \<open>parseForm\<close> pushes hold for each table the descriptor written last.
\<close>

theorem nrel_descriptor_written_and_pushed:
  "(splitName name = [''nrel'', t, fkey, scol, nr] \<and> scol \<noteq> [] \<and> nr \<noteq> [] \<longrightarrow>
      descriptorOf props (Some name)
        = [(mapPrefix props @ t, \<lparr>fk = fkey, sortcol = Some scol, noreorder = Some nr\<rparr>)]
      \<and> (wname w = Some name \<and> wlayout w = Some lay \<longrightarrow>
           renderNRelation readOnly rowCount w
             = Inr (Some (replicate rowCount
                 \<lparr>reorderArrows = False,
                  removeIcon = (\<not> readOnly \<and>
                     jvalText (propertyOf (wproperty w) ''enabled'') \<noteq> ''false'')\<rparr>))))
   \<and> (splitName name = [''nrel'', t, fkey, scol] \<and> scol \<noteq> [] \<longrightarrow>
      descriptorOf props (Some name)
        = [(mapPrefix props @ t, \<lparr>fk = fkey, sortcol = Some scol, noreorder = None\<rparr>)]
      \<and> (wname w = Some name \<and> wlayout w = Some lay \<longrightarrow>
           renderNRelation readOnly rowCount w
             = Inr (Some (replicate rowCount
                 \<lparr>reorderArrows = (\<not> readOnly \<and>
                     jvalText (propertyOf (wproperty w) ''enabled'') \<noteq> ''false''),
                  removeIcon = (\<not> readOnly \<and>
                     jvalText (propertyOf (wproperty w) ''enabled'') \<noteq> ''false'')\<rparr>))))
   \<and> (splitName name = [''nrel'', t, fkey] \<longrightarrow>
      descriptorOf props (Some name)
        = [(mapPrefix props @ t, \<lparr>fk = fkey, sortcol = None, noreorder = None\<rparr>)]
      \<and> (wname w = Some name \<and> wlayout w = Some lay \<longrightarrow>
           renderNRelation readOnly rowCount w
             = Inr (Some (replicate rowCount
                 \<lparr>reorderArrows = False,
                  removeIcon = (\<not> readOnly \<and>
                     jvalText (propertyOf (wproperty w) ''enabled'') \<noteq> ''false'')\<rparr>))))
   \<and> relationTables (snd (snd (reformatWidget props r w st)))
        = writeTables (relationTables st) (descriptorsOfWidget props (wname w) w)
   \<and> map_of (snd (snd (parseForm xmlParse props pre reqId data cst))) key
        = map_of (rev (descriptorsOfWidget props (wname (xmlParse data)) (xmlParse data))) key"
proof (intro conjI impI)
  assume h: "splitName name = [''nrel'', t, fkey, scol, nr] \<and> scol \<noteq> [] \<and> nr \<noteq> []"
  then have ne: "name \<noteq> []" using splitName_nonempty by blast
  with h show "descriptorOf props (Some name)
        = [(mapPrefix props @ t, \<lparr>fk = fkey, sortcol = Some scol, noreorder = Some nr\<rparr>)]"
    by (simp add: descriptorOf_def relationTableOf_def idx_def keyText_def truthyOr_def)
  assume "wname w = Some name \<and> wlayout w = Some lay"
  with h show "renderNRelation readOnly rowCount w
             = Inr (Some (replicate rowCount
                 \<lparr>reorderArrows = False,
                  removeIcon = (\<not> readOnly \<and>
                     jvalText (propertyOf (wproperty w) ''enabled'') \<noteq> ''false'')\<rparr>))"
    by (simp add: renderNRelation_def idx_def truthyOr_def Let_def)
next
  assume h: "splitName name = [''nrel'', t, fkey, scol] \<and> scol \<noteq> []"
  then have ne: "name \<noteq> []" using splitName_nonempty by blast
  with h show "descriptorOf props (Some name)
        = [(mapPrefix props @ t, \<lparr>fk = fkey, sortcol = Some scol, noreorder = None\<rparr>)]"
    by (simp add: descriptorOf_def relationTableOf_def idx_def keyText_def truthyOr_def)
  assume "wname w = Some name \<and> wlayout w = Some lay"
  with h show "renderNRelation readOnly rowCount w
             = Inr (Some (replicate rowCount
                 \<lparr>reorderArrows = (\<not> readOnly \<and>
                     jvalText (propertyOf (wproperty w) ''enabled'') \<noteq> ''false''),
                  removeIcon = (\<not> readOnly \<and>
                     jvalText (propertyOf (wproperty w) ''enabled'') \<noteq> ''false'')\<rparr>))"
    by (simp add: renderNRelation_def idx_def truthyOr_def Let_def)
next
  assume h: "splitName name = [''nrel'', t, fkey]"
  then have ne: "name \<noteq> []" using splitName_nonempty by blast
  with h show "descriptorOf props (Some name)
        = [(mapPrefix props @ t, \<lparr>fk = fkey, sortcol = None, noreorder = None\<rparr>)]"
    by (simp add: descriptorOf_def relationTableOf_def idx_def keyText_def truthyOr_def)
  assume "wname w = Some name \<and> wlayout w = Some lay"
  with h show "renderNRelation readOnly rowCount w
             = Inr (Some (replicate rowCount
                 \<lparr>reorderArrows = False,
                  removeIcon = (\<not> readOnly \<and>
                     jvalText (propertyOf (wproperty w) ''enabled'') \<noteq> ''false'')\<rparr>))"
    by (simp add: renderNRelation_def idx_def truthyOr_def Let_def)
next
  show "relationTables (snd (snd (reformatWidget props r w st)))
        = writeTables (relationTables st) (descriptorsOfWidget props (wname w) w)"
    by (rule reformatWidget_tables_written)
next
  show "map_of (snd (snd (parseForm xmlParse props pre reqId data cst))) key
        = map_of (rev (descriptorsOfWidget props (wname (xmlParse data)) (xmlParse data))) key"
    by (rule parseForm_relationTables)
qed

theorem nrel_descriptor_written_and_pushed_witness:
  "splitName ''nrel__pipes__parent_id__pos__1'' = [''nrel'', ''pipes'', ''parent_id'', ''pos'', ''1'']
   \<and> descriptorOf sampleProps (Some ''nrel__pipes__parent_id__pos__1'')
       = [(''map.pipes'', \<lparr>fk = ''parent_id'', sortcol = Some ''pos'', noreorder = Some ''1''\<rparr>)]
   \<and> renderNRelation False 2 sortedRelation
       = Inr (Some [\<lparr>reorderArrows = False, removeIcon = True\<rparr>,
                    \<lparr>reorderArrows = False, removeIcon = True\<rparr>])
   \<and> splitName ''nrel__pipes__parent_id__pos'' = [''nrel'', ''pipes'', ''parent_id'', ''pos'']
   \<and> descriptorOf sampleProps (Some ''nrel__pipes__parent_id__pos'')
       = [(''map.pipes'', \<lparr>fk = ''parent_id'', sortcol = Some ''pos'', noreorder = None\<rparr>)]
   \<and> splitName ''nrel__pipes__parent_id'' = [''nrel'', ''pipes'', ''parent_id'']
   \<and> descriptorOf sampleProps (Some ''nrel__pipes__parent_id'')
       = [(''map.pipes'', \<lparr>fk = ''parent_id'', sortcol = None, noreorder = None\<rparr>)]
   \<and> renderNRelation False 2 plainRelation
       = Inr (Some [\<lparr>reorderArrows = False, removeIcon = True\<rparr>,
                    \<lparr>reorderArrows = False, removeIcon = True\<rparr>])
   \<and> map_of (snd (snd (parseForm (\<lambda>data. twoRelationsForm) sampleProps True 3 ''form''
                          defaultState))) ''map.pipes''
       = map_of (rev (descriptorsOfWidget sampleProps (wname twoRelationsForm) twoRelationsForm))
           ''map.pipes''"
proof -
  have s5: "splitName ''nrel__pipes__parent_id__pos__1''
              = [''nrel'', ''pipes'', ''parent_id'', ''pos'', ''1''] \<and> ''pos'' \<noteq> [] \<and> ''1'' \<noteq> []"
    by (simp add: splitName_def)
  have s4: "splitName ''nrel__pipes__parent_id__pos'' = [''nrel'', ''pipes'', ''parent_id'', ''pos'']
              \<and> ''pos'' \<noteq> []"
    by (simp add: splitName_def)
  have s3: "splitName ''nrel__pipes__parent_id'' = [''nrel'', ''pipes'', ''parent_id'']"
    by (simp add: splitName_def)
  have w5: "wname sortedRelation = Some ''nrel__pipes__parent_id__pos__1''
              \<and> wlayout sortedRelation = Some (Layout (Some ''QGridLayout'') (Some ''rows'') [] (Some False))"
    by (simp add: sortedRelation_def)
  have w3: "wname plainRelation = Some ''nrel__pipes__parent_id''
              \<and> wlayout plainRelation = Some (Layout (Some ''QGridLayout'') (Some ''rows'') [] (Some False))"
    by (simp add: plainRelation_def)
  have enabled: "jvalText (propertyOf (wproperty sortedRelation) ''enabled'') \<noteq> ''false''"
                "jvalText (propertyOf (wproperty plainRelation) ''enabled'') \<noteq> ''false''"
    by (simp_all add: sortedRelation_def plainRelation_def getMember_def)
  have p: "mapPrefix sampleProps = ''map.''"
    by (simp add: sampleProps_def)
  note five = nrel_descriptor_written_and_pushed
      [of "''nrel__pipes__parent_id__pos__1''" "''pipes''" "''parent_id''" "''pos''" "''1''"
          sampleProps sortedRelation
          "Layout (Some ''QGridLayout'') (Some ''rows'') [] (Some False)" False 2
          "[]" emptyRegistries "\<lambda>data. twoRelationsForm" True 3 "''form''" defaultState "''map.pipes''"]
  note four = nrel_descriptor_written_and_pushed
      [of "''nrel__pipes__parent_id__pos''" "''pipes''" "''parent_id''" "''pos''" "''1''"
          sampleProps sortedRelation
          "Layout (Some ''QGridLayout'') (Some ''rows'') [] (Some False)" False 2
          "[]" emptyRegistries "\<lambda>data. twoRelationsForm" True 3 "''form''" defaultState "''map.pipes''"]
  note three = nrel_descriptor_written_and_pushed
      [of "''nrel__pipes__parent_id''" "''pipes''" "''parent_id''" "''pos''" "''1''"
          sampleProps plainRelation
          "Layout (Some ''QGridLayout'') (Some ''rows'') [] (Some False)" False 2
          "[]" emptyRegistries "\<lambda>data. twoRelationsForm" True 3 "''form''" defaultState "''map.pipes''"]
  have d5: "descriptorOf sampleProps (Some ''nrel__pipes__parent_id__pos__1'')
       = [(''map.pipes'', \<lparr>fk = ''parent_id'', sortcol = Some ''pos'', noreorder = Some ''1''\<rparr>)]"
    using five s5 p by simp
  have r5: "renderNRelation False 2 sortedRelation
       = Inr (Some [\<lparr>reorderArrows = False, removeIcon = True\<rparr>,
                    \<lparr>reorderArrows = False, removeIcon = True\<rparr>])"
    using five s5 w5 enabled(1) by (simp add: numeral_2_eq_2)
  have d4: "descriptorOf sampleProps (Some ''nrel__pipes__parent_id__pos'')
       = [(''map.pipes'', \<lparr>fk = ''parent_id'', sortcol = Some ''pos'', noreorder = None\<rparr>)]"
    using four s4 p by simp
  have d3: "descriptorOf sampleProps (Some ''nrel__pipes__parent_id'')
       = [(''map.pipes'', \<lparr>fk = ''parent_id'', sortcol = None, noreorder = None\<rparr>)]"
    using three s3 p by simp
  have r3: "renderNRelation False 2 plainRelation
       = Inr (Some [\<lparr>reorderArrows = False, removeIcon = True\<rparr>,
                    \<lparr>reorderArrows = False, removeIcon = True\<rparr>])"
    using three s3 w3 enabled(2) by (simp add: numeral_2_eq_2)
  have pushed: "map_of (snd (snd (parseForm (\<lambda>data. twoRelationsForm) sampleProps True 3 ''form''
                          defaultState))) ''map.pipes''
       = map_of (rev (descriptorsOfWidget sampleProps (wname twoRelationsForm) twoRelationsForm))
           ''map.pipes''"
    using five by simp
  show ?thesis using s5 s4 s3 d5 r5 d4 d3 r3 pushed by simp
qed


section \<open>QtDesignerForm: the reformatted tree\<close>





lemma startsWith_synthetic_widget: "startsWith ('':widget_'' @ s) '':widget_''"
  by (simp add: startsWith_def)

lemma widget_prefix_cases:
  "startsWith x '':widget_'' \<Longrightarrow> x \<noteq> [] \<and> \<not> startsWith x ''nrel__''"
  by (cases x) (auto simp add: startsWith_def)

lemma widgetName_agree:
  assumes "sameName '':widget_'' a b"
  shows "sameName '':widget_'' (Some (fst (widgetName a s))) (Some (fst (widgetName b s')))"
    and "startsWith (fst (widgetName a s)) ''nrel__'' = startsWith (fst (widgetName b s')) ''nrel__''"
proof -
  have syn: "\<not> startsWith ('':widget_'' @ n) ''nrel__''" for n
    by (simp add: startsWith_def)
  show "sameName '':widget_'' (Some (fst (widgetName a s))) (Some (fst (widgetName b s')))"
    using assms widget_prefix_cases
    by (auto simp add: sameName_def widgetName_def truthyOr_def startsWith_def
          split: option.splits if_splits)
  show "startsWith (fst (widgetName a s)) ''nrel__'' = startsWith (fst (widgetName b s')) ''nrel__''"
    using assms widget_prefix_cases syn
    by (auto simp add: sameName_def widgetName_def truthyOr_def split: option.splits if_splits)
qed

lemma layoutName_same:
  "sameName '':layout_'' (Some (fst (layoutName a s))) (Some (fst (layoutName a s')))"
  by (auto simp add: sameName_def layoutName_def truthyOr_def startsWith_def
        split: option.splits if_splits)


lemma reformat_sameStructure:
  "\<forall>name2 st2. sameName '':widget_'' name name2 \<longrightarrow>
      sameStructure (fst (reformatWidgetNamed props r name w st))
                    (fst (reformatWidgetNamed props r name2 w st2))
      \<and> fst (snd (reformatWidgetNamed props r name w st))
          = fst (snd (reformatWidgetNamed props r name2 w st2))"
  "\<forall>st2. sameStructures (fst (reformatEntries props r i ws vf st))
                         (fst (reformatEntries props r i ws vf st2))
      \<and> fst (snd (reformatEntries props r i ws vf st))
          = fst (snd (reformatEntries props r i ws vf st2))"
  "\<forall>st2. sameStructures (fst (reformatPages props r i ws vf st))
                         (fst (reformatPages props r i ws vf st2))
      \<and> fst (snd (reformatPages props r i ws vf st))
          = fst (snd (reformatPages props r i ws vf st2))"
  "\<forall>st2. sameLayout (fst (reformatLayout props r l st)) (fst (reformatLayout props r l st2))
      \<and> fst (snd (reformatLayout props r l st)) = fst (snd (reformatLayout props r l st2))"
  "\<forall>st2. sameItems (fst (reformatLayoutItems props r i its vf st))
                    (fst (reformatLayoutItems props r i its vf st2))
      \<and> fst (snd (reformatLayoutItems props r i its vf st))
          = fst (snd (reformatLayoutItems props r i its vf st2))"
proof (induction props r name w st and props r i ws vf st and props r i ws vf st
         and props r l st and props r i its vf st
       rule: reformatWidgetNamed_reformatEntries_reformatPages_reformatLayout_reformatLayoutItems.induct)
  case (1 props r name cls n0 property attribute entries lay pages st)
  show ?case
  proof (intro allI impI)
    fix name2 st2
    assume names: "sameName '':widget_'' name name2"
    let ?e = "reformatEntries props r 0 entries False st"
    let ?e2 = "reformatEntries props r 0 entries False st2"
    let ?n = "widgetName name (snd (snd ?e))"
    let ?n2 = "widgetName name2 (snd (snd ?e2))"
    let ?c = "classify props r (fst ?n) (snd ?n)"
    let ?c2 = "classify props r (fst ?n2) (snd ?n2)"
    let ?l = "case lay of
                None \<Rightarrow> (None, fst (snd ?e), ?c)
              | Some l \<Rightarrow>
                  (case reformatLayout props (r @ [LayoutOf]) l ?c of
                     (l', v, s) \<Rightarrow> (Some l', fst (snd ?e) \<or> v, s))"
    let ?l2 = "case lay of
                None \<Rightarrow> (None, fst (snd ?e2), ?c2)
              | Some l \<Rightarrow>
                  (case reformatLayout props (r @ [LayoutOf]) l ?c2 of
                     (l', v, s) \<Rightarrow> (Some l', fst (snd ?e2) \<or> v, s))"
    let ?p = "reformatPages props r 0 pages (fst (snd ?l)) (snd (snd ?l))"
    let ?p2 = "reformatPages props r 0 pages (fst (snd ?l2)) (snd (snd ?l2))"
    have entries: "sameStructures (fst ?e) (fst ?e2)" "fst (snd ?e) = fst (snd ?e2)"
      using "1.IH"(1) [THEN spec, of st2] by simp_all
    have name: "sameName '':widget_'' (Some (fst ?n)) (Some (fst ?n2))"
               "startsWith (fst ?n) ''nrel__'' = startsWith (fst ?n2) ''nrel__''"
      using widgetName_agree [OF names] by simp_all
    have lay: "(case fst ?l of
                  None \<Rightarrow> fst ?l2 = None
                | Some x \<Rightarrow> (case fst ?l2 of None \<Rightarrow> False | Some y \<Rightarrow> sameLayout x y))"
              "fst (snd ?l) = fst (snd ?l2)"
    proof -
      show "(case fst ?l of
                  None \<Rightarrow> fst ?l2 = None
                | Some x \<Rightarrow> (case fst ?l2 of None \<Rightarrow> False | Some y \<Rightarrow> sameLayout x y))"
      proof (cases lay)
        case None
        then show ?thesis by simp
      next
        case (Some x)
        show ?thesis
          using "1.IH"(2) [OF prod.collapse prod.collapse prod.collapse Some, THEN spec, of ?c2] Some
          by (simp add: case_prod_beta)
      qed
      show "fst (snd ?l) = fst (snd ?l2)"
      proof (cases lay)
        case None
        then show ?thesis using entries(2) by simp
      next
        case (Some x)
        show ?thesis
          using "1.IH"(2) [OF prod.collapse prod.collapse prod.collapse Some, THEN spec, of ?c2]
            Some entries(2)
          by (simp add: case_prod_beta)
      qed
    qed
    have pages: "sameStructures (fst ?p) (fst ?p2)" "fst (snd ?p) = fst (snd ?p2)"
      using "1.IH"(3) [OF prod.collapse prod.collapse prod.collapse prod.collapse prod.collapse,
                       THEN spec, of "snd (snd ?l2)"]
        lay(2)
      by simp_all
    show "sameStructure (fst (reformatWidgetNamed props r name
              (Widget cls n0 property attribute entries lay pages) st))
            (fst (reformatWidgetNamed props r name2
              (Widget cls n0 property attribute entries lay pages) st2))
          \<and> fst (snd (reformatWidgetNamed props r name
              (Widget cls n0 property attribute entries lay pages) st))
            = fst (snd (reformatWidgetNamed props r name2
              (Widget cls n0 property attribute entries lay pages) st2))"
    proof (cases lay)
      case None
      then show ?thesis
        using entries name lay pages by (simp add: case_prod_beta)
    next
      case (Some x)
      then show ?thesis
        using entries name lay pages by (simp add: case_prod_beta)
    qed
  qed
next
  case (2 props r i vf st)
  then show ?case by simp
next
  case (3 props r i w ws vf st)
  show ?case
  proof
    fix st2
    let ?h = "reformatWidgetNamed props (r @ [ItemAt i]) (wname w) w st"
    let ?h2 = "reformatWidgetNamed props (r @ [ItemAt i]) (wname w) w st2"
    have head: "sameStructure (fst ?h) (fst ?h2)" "fst (snd ?h) = fst (snd ?h2)"
      using "3.IH"(1) [THEN spec, THEN spec, of "wname w" st2] by (simp_all add: sameName_def)
    have rest: "sameStructures
                  (fst (reformatEntries props r (Suc i) ws (vf \<or> fst (snd ?h)) (snd (snd ?h))))
                  (fst (reformatEntries props r (Suc i) ws (vf \<or> fst (snd ?h)) (snd (snd ?h2))))"
               "fst (snd (reformatEntries props r (Suc i) ws (vf \<or> fst (snd ?h)) (snd (snd ?h))))
                  = fst (snd (reformatEntries props r (Suc i) ws (vf \<or> fst (snd ?h)) (snd (snd ?h2))))"
      using "3.IH"(2) [OF prod.collapse prod.collapse, THEN spec, of "snd (snd ?h2)"] by simp_all
    show "sameStructures (fst (reformatEntries props r i (w # ws) vf st))
            (fst (reformatEntries props r i (w # ws) vf st2))
          \<and> fst (snd (reformatEntries props r i (w # ws) vf st))
            = fst (snd (reformatEntries props r i (w # ws) vf st2))"
      using head rest by (simp add: case_prod_beta)
  qed
next
  case (4 props r i vf st)
  then show ?case by simp
next
  case (5 props r i child ws vf st)
  show ?case
  proof
    fix st2
    let ?h = "reformatWidgetNamed props (r @ [WidgetAt i])
                (Some ('':widget_'' @ numberToString (counters_widget st))) child
                (st\<lparr>counters_widget := Suc (counters_widget st)\<rparr>)"
    let ?h2 = "reformatWidgetNamed props (r @ [WidgetAt i])
                (Some ('':widget_'' @ numberToString (counters_widget st2))) child
                (st2\<lparr>counters_widget := Suc (counters_widget st2)\<rparr>)"
    have "sameName '':widget_'' (Some ('':widget_'' @ numberToString (counters_widget st)))
            (Some ('':widget_'' @ numberToString (counters_widget st2)))"
      by (simp add: sameName_def startsWith_def)
    then have head: "sameStructure (fst ?h) (fst ?h2)" "fst (snd ?h) = fst (snd ?h2)"
      using "5.IH"(1) [THEN spec, THEN spec,
                       of "Some ('':widget_'' @ numberToString (counters_widget st2))"
                          "st2\<lparr>counters_widget := Suc (counters_widget st2)\<rparr>"]
      by simp_all
    have rest: "sameStructures
                  (fst (reformatPages props r (Suc i) ws (vf \<or> fst (snd ?h)) (snd (snd ?h))))
                  (fst (reformatPages props r (Suc i) ws (vf \<or> fst (snd ?h)) (snd (snd ?h2))))"
               "fst (snd (reformatPages props r (Suc i) ws (vf \<or> fst (snd ?h)) (snd (snd ?h))))
                  = fst (snd (reformatPages props r (Suc i) ws (vf \<or> fst (snd ?h)) (snd (snd ?h2))))"
      using "5.IH"(2) [OF prod.collapse prod.collapse, THEN spec, of "snd (snd ?h2)"] by simp_all
    show "sameStructures (fst (reformatPages props r i (child # ws) vf st))
            (fst (reformatPages props r i (child # ws) vf st2))
          \<and> fst (snd (reformatPages props r i (child # ws) vf st))
            = fst (snd (reformatPages props r i (child # ws) vf st2))"
      using head rest by (simp add: case_prod_beta)
  qed
next
  case (6 props r cls name items vfOld st)
  show ?case
  proof
    fix st2
    have items: "sameItems
                   (fst (reformatLayoutItems props r 0 items False (snd (layoutName name st))))
                   (fst (reformatLayoutItems props r 0 items False (snd (layoutName name st2))))"
                "fst (snd (reformatLayoutItems props r 0 items False (snd (layoutName name st))))
                   = fst (snd (reformatLayoutItems props r 0 items False (snd (layoutName name st2))))"
      using "6.IH" [OF prod.collapse, THEN spec, of "snd (layoutName name st2)"] by simp_all
    show "sameLayout (fst (reformatLayout props r (Layout cls name items vfOld) st))
            (fst (reformatLayout props r (Layout cls name items vfOld) st2))
          \<and> fst (snd (reformatLayout props r (Layout cls name items vfOld) st))
            = fst (snd (reformatLayout props r (Layout cls name items vfOld) st2))"
      using items layoutName_same [of name st st2] by (simp add: case_prod_beta)
  qed
next
  case (7 props r i vf st)
  then show ?case by simp
next
  case (8 props r i row col rowspan colspan c rest vf st)
  show ?case
  proof
    fix st2
    let ?h = "\<lambda>s. case c of
              CWidget w \<Rightarrow>
                (case reformatWidgetNamed props (r @ [ItemAt i]) (wname w) w s of
                   (w', v, s') \<Rightarrow> (CWidget w', v, s'))
            | CSpacer sp \<Rightarrow>
                (CSpacer (Spacer (sname sp) (PMap (reformatProps (sproperty sp)))),
                 getMember (reformatProps (sproperty sp)) ''orientation'' = JString ''Qt::Vertical'',
                 s)
            | CLayout l \<Rightarrow>
                (case reformatLayout props (r @ [ItemAt i]) l s of
                   (l', v, s') \<Rightarrow> (CLayout l', v, s'))
            | CEmpty \<Rightarrow> (CEmpty, False, s)"
    have head: "(case fst (?h st) of
                   CWidget w \<Rightarrow> (case fst (?h st2) of CWidget w' \<Rightarrow> sameStructure w w' | _ \<Rightarrow> False)
                 | CSpacer sp \<Rightarrow> fst (?h st2) = CSpacer sp
                 | CLayout l \<Rightarrow> (case fst (?h st2) of CLayout l' \<Rightarrow> sameLayout l l' | _ \<Rightarrow> False)
                 | CEmpty \<Rightarrow> fst (?h st2) = CEmpty)"
               "fst (snd (?h st)) = fst (snd (?h st2))"
    proof -
      have widget: "sameStructure (fst (reformatWidgetNamed props (r @ [ItemAt i]) (wname w) w st))
                      (fst (reformatWidgetNamed props (r @ [ItemAt i]) (wname w) w st2))
                    \<and> fst (snd (reformatWidgetNamed props (r @ [ItemAt i]) (wname w) w st))
                      = fst (snd (reformatWidgetNamed props (r @ [ItemAt i]) (wname w) w st2))"
        if "c = CWidget w" for w
        using "8.IH"(1) [OF that, THEN spec, THEN spec, of "wname w" st2]
        by (simp add: sameName_def)
      have layout: "sameLayout (fst (reformatLayout props (r @ [ItemAt i]) l st))
                      (fst (reformatLayout props (r @ [ItemAt i]) l st2))
                    \<and> fst (snd (reformatLayout props (r @ [ItemAt i]) l st))
                      = fst (snd (reformatLayout props (r @ [ItemAt i]) l st2))"
        if "c = CLayout l" for l
        using "8.IH"(2) [OF that, THEN spec, of st2] .
      show "(case fst (?h st) of
                   CWidget w \<Rightarrow> (case fst (?h st2) of CWidget w' \<Rightarrow> sameStructure w w' | _ \<Rightarrow> False)
                 | CSpacer sp \<Rightarrow> fst (?h st2) = CSpacer sp
                 | CLayout l \<Rightarrow> (case fst (?h st2) of CLayout l' \<Rightarrow> sameLayout l l' | _ \<Rightarrow> False)
                 | CEmpty \<Rightarrow> fst (?h st2) = CEmpty)"
        using widget layout by (cases c) (simp_all add: case_prod_beta)
      show "fst (snd (?h st)) = fst (snd (?h st2))"
        using widget layout by (cases c) (simp_all add: case_prod_beta)
    qed
    have rest: "sameItems
                  (fst (reformatLayoutItems props r (Suc i) rest (vf \<or> fst (snd (?h st))) (snd (snd (?h st)))))
                  (fst (reformatLayoutItems props r (Suc i) rest (vf \<or> fst (snd (?h st))) (snd (snd (?h st2)))))"
               "fst (snd (reformatLayoutItems props r (Suc i) rest (vf \<or> fst (snd (?h st))) (snd (snd (?h st)))))
                  = fst (snd (reformatLayoutItems props r (Suc i) rest (vf \<or> fst (snd (?h st))) (snd (snd (?h st2)))))"
      using "8.IH"(3) [OF prod.collapse prod.collapse, THEN spec, of "snd (snd (?h st2))"] by simp_all
    show "sameItems (fst (reformatLayoutItems props r i (Item row col rowspan colspan c # rest) vf st))
            (fst (reformatLayoutItems props r i (Item row col rowspan colspan c # rest) vf st2))
          \<and> fst (snd (reformatLayoutItems props r i (Item row col rowspan colspan c # rest) vf st))
            = fst (snd (reformatLayoutItems props r i (Item row col rowspan colspan c # rest) vf st2))"
      using head rest by (cases c) (simp_all add: case_prod_beta)
  qed
qed

text \<open>
  Claim C7. Two calls of \<open>parseForm\<close> on the same text under the same props build the
  same document: the tree, the registries \<open>fields\<close>, \<open>buttons\<close>, \<open>nrels\<close>,
  \<open>externalFields\<close> and \<open>widgets\<close>, and the relation tables are equal, whatever the
  component state and the request identifier of each call. The structure does not hang
  on the counters and registries being new for each call: started from any counters
  and registries, \<open>reformatWidget\<close> builds a tree of the same structure (classes,
  properties, attributes, layout nesting, positions, \<open>verticalFill\<close>, and names but for
  the numbering of synthetic ones), returns the same \<open>verticalFill\<close>, and writes the
  same relation tables.
\<close>

theorem parseForm_same_document_same_tree:
  "fst (snd (parseForm xmlParse props True r1 data st1))
     = fst (snd (parseForm xmlParse props True r2 data st2))
   \<and> formData (fst (parseForm xmlParse props False r1 data st1))
     = formData (fst (parseForm xmlParse props False r2 data st2))
   \<and> snd (snd (parseForm xmlParse props pre r1 data st1))
     = snd (snd (parseForm xmlParse props pre r2 data st2))
   \<and> sameStructure (fst (reformatWidget props r w regs1)) (fst (reformatWidget props r w regs2))
   \<and> fst (snd (reformatWidget props r w regs1)) = fst (snd (reformatWidget props r w regs2))
   \<and> (relationTables regs1 = relationTables regs2 \<longrightarrow>
        relationTables (snd (snd (reformatWidget props r w regs1)))
          = relationTables (snd (snd (reformatWidget props r w regs2))))"
proof -
  have same: "sameName '':widget_'' (wname w) (wname w)"
    by (simp add: sameName_def)
  have tree: "sameStructure (fst (reformatWidget props r w regs1)) (fst (reformatWidget props r w regs2))
              \<and> fst (snd (reformatWidget props r w regs1)) = fst (snd (reformatWidget props r w regs2))"
    using reformat_sameStructure(1) [of "wname w" props r w regs1] same
    unfolding reformatWidget_def by blast
  have tables: "relationTables (snd (snd (reformatWidget props r w regs1)))
                  = relationTables (snd (snd (reformatWidget props r w regs2)))"
    if "relationTables regs1 = relationTables regs2"
    using that by (simp add: reformatWidget_tables_written)
  show ?thesis
    using tree tables by (simp add: parseForm_def Let_def)
qed

theorem parseForm_same_document_same_tree_witness:
  "relationTables emptyRegistries
     = relationTables (emptyRegistries\<lparr>counters_widget := 5, counters_layout := 3\<rparr>)
   \<and> sameStructure (fst (reformatWidget sampleProps [] sampleForm emptyRegistries))
        (fst (reformatWidget sampleProps [] sampleForm
                (emptyRegistries\<lparr>counters_widget := 5, counters_layout := 3\<rparr>)))
   \<and> relationTables (snd (snd (reformatWidget sampleProps [] sampleForm emptyRegistries)))
     = relationTables (snd (snd (reformatWidget sampleProps [] sampleForm
                (emptyRegistries\<lparr>counters_widget := 5, counters_layout := 3\<rparr>))))
   \<and> formData (fst (parseForm sampleParse sampleProps False 1 ''A'' defaultState))
     = formData (fst (parseForm sampleParse sampleProps False 2 ''A''
         (fst (parseForm sampleParse sampleProps False 1 ''A'' defaultState))))"
proof -
  have h: "relationTables emptyRegistries
     = relationTables (emptyRegistries\<lparr>counters_widget := 5, counters_layout := 3\<rparr>)"
    by simp
  show ?thesis
    using h parseForm_same_document_same_tree
          [of sampleParse sampleProps 1 "''A''" defaultState 2
              "fst (parseForm sampleParse sampleProps False 1 ''A'' defaultState)" False
              "[]" sampleForm emptyRegistries
              "emptyRegistries\<lparr>counters_widget := 5, counters_layout := 3\<rparr>"]
    by simp
qed


section \<open>QtDesignerForm: column sizes\<close>

lemma padded_nth:
  "m < length (padded n cols) \<Longrightarrow>
   padded n cols ! m = (if m < length cols then cols ! m else None)"
  by (simp add: padded_def nth_append)

lemma padded_length: "n < length (padded n cols)" "length cols \<le> length (padded n cols)"
  by (simp_all add: padded_def)

lemma writeCell_valid:
  "0 \<le> c \<Longrightarrow> c < arrayIndexLimit \<Longrightarrow> writeCell c v cols = (padded (nat c) cols)[nat c := v]"
  by (simp add: writeCell_def)

lemma writeCell_invalid:
  "\<not> (0 \<le> c \<and> c < arrayIndexLimit) \<Longrightarrow> writeCell c v cols = cols"
  by (auto simp add: writeCell_def)

lemma readCell_nat: "readCell (int m) cols = (if m < length cols then cols ! m else None)"
  by (simp add: readCell_def)

lemma readCell_negative: "j < 0 \<Longrightarrow> readCell j cols = None"
  by (simp add: readCell_def)

lemma readCell_writeCell:
  "readCell j (writeCell c v cols) =
     (if j = c \<and> 0 \<le> c \<and> c < arrayIndexLimit then v else readCell j cols)"
proof (cases "0 \<le> c \<and> c < arrayIndexLimit")
  case False
  then show ?thesis by (auto simp add: writeCell_invalid)
next
  case True
  then have w: "writeCell c v cols = (padded (nat c) cols)[nat c := v]"
    by (simp add: writeCell_valid)
  show ?thesis
  proof (cases "j < 0")
    case True
    with \<open>0 \<le> c \<and> c < arrayIndexLimit\<close> show ?thesis by (simp add: readCell_negative)
  next
    case False
    then obtain m where m: "j = int m" using nonneg_int_cases by (metis not_less)
    from True obtain n where n: "c = int n" using nonneg_int_cases by metis
    have w': "writeCell (int n) v cols = (padded n cols)[n := v]" using w n by simp
    show ?thesis
    proof (cases "m = n")
      case True
      then show ?thesis
        using \<open>0 \<le> c \<and> c < arrayIndexLimit\<close> padded_length(1) [of n cols]
        by (simp add: m n w' readCell_nat del: of_nat_less_iff)
    next
      case False
      have "readCell (int m) ((padded n cols)[n := v]) = readCell (int m) cols"
      proof (cases "m < length (padded n cols)")
        case True
        then show ?thesis using False padded_length(2) [of cols n]
          by (simp add: readCell_nat padded_nth)
      next
        case False
        then have "\<not> m < length cols" using padded_length(2) [of cols n] by simp
        with False show ?thesis by (simp add: readCell_nat)
      qed
      then show ?thesis using False by (simp add: m n w')
    qed
  qed
qed

lemma length_writeCell:
  "int (length cols) \<le> arrayIndexLimit \<Longrightarrow> int (length (writeCell c v cols)) \<le> arrayIndexLimit"
  by (cases "0 \<le> c \<and> c < arrayIndexLimit")
     (auto simp add: writeCell_valid writeCell_invalid padded_def)

lemma length_writeCell_mono: "length cols \<le> length (writeCell c v cols)"
  by (cases "0 \<le> c \<and> c < arrayIndexLimit")
     (auto simp add: writeCell_valid writeCell_invalid padded_def)

lemma length_writeCell_gt:
  "0 \<le> c \<Longrightarrow> c < arrayIndexLimit \<Longrightarrow> nat c < length (writeCell c v cols)"
  by (simp add: writeCell_valid padded_def)

lemma columnStep_spacer:
  "columnStep False True index item acc =
     (if horizontalSpacer item
      then (writeCell (parseIntOr (icolumn item) 0) (Some ''auto'') (fst acc), True)
      else (writeCell (parseIntOr (icolumn item) 0)
              (readCell (parseIntOr (icolumn item) 0) (fst acc)) (fst acc), snd acc))"
  by (simp add: columnStep_def columnOf_def Let_def)

lemma columnLoop_cells:
  "readCell j (fst (columnLoop False True index items acc)) =
     (if (\<exists>item \<in> set items. horizontalSpacer item \<and> parseIntOr (icolumn item) 0 = j)
         \<and> 0 \<le> j \<and> j < arrayIndexLimit
      then Some ''auto'' else readCell j (fst acc))"
proof (induction items arbitrary: index acc)
  case Nil
  then show ?case by simp
next
  case (Cons item items)
  show ?case
    by (simp add: Cons.IH columnStep_spacer readCell_writeCell) blast
qed

lemma columnLoop_hasAuto:
  "snd (columnLoop False True index items acc) =
     (snd acc \<or> (\<exists>item \<in> set items. horizontalSpacer item))"
  by (induction items arbitrary: index acc) (auto simp add: columnStep_spacer)

lemma columnLoop_length:
  "int (length (fst acc)) \<le> arrayIndexLimit \<Longrightarrow>
   int (length (fst (columnLoop False True index items acc))) \<le> arrayIndexLimit"
  by (induction items arbitrary: index acc) (simp_all add: columnStep_spacer length_writeCell)

lemma columnLoop_length_mono:
  "length (fst acc) \<le> length (fst (columnLoop False True index items acc))"
proof (induction items arbitrary: index acc)
  case Nil
  then show ?case by simp
next
  case (Cons item items)
  have "length (fst acc) \<le> length (fst (columnStep False True index item acc))"
    by (simp add: columnStep_spacer length_writeCell_mono)
  also have "\<dots> \<le> length (fst (columnLoop False True (Suc index) items
                                  (columnStep False True index item acc)))"
    by (rule Cons.IH)
  finally show ?case by simp
qed

lemma columnLoop_covers:
  "item \<in> set items \<Longrightarrow> 0 \<le> parseIntOr (icolumn item) 0 \<Longrightarrow>
   parseIntOr (icolumn item) 0 < arrayIndexLimit \<Longrightarrow>
   nat (parseIntOr (icolumn item) 0) < length (fst (columnLoop False True index items acc))"
proof (induction items arbitrary: index acc)
  case Nil
  then show ?case by simp
next
  case (Cons a items)
  show ?case
  proof (cases "item = a")
    case True
    have "nat (parseIntOr (icolumn item) 0) < length (fst (columnStep False True index a acc))"
      using True Cons.prems(2,3) by (simp add: columnStep_spacer length_writeCell_gt)
    also have "\<dots> \<le> length (fst (columnLoop False True (Suc index) items
                                  (columnStep False True index a acc)))"
      by (rule columnLoop_length_mono)
    finally show ?thesis by simp
  next
    case False
    then have "item \<in> set items" using Cons.prems(1) by simp
    then show ?thesis using Cons.IH Cons.prems(2,3) by simp
  qed
qed

lemma fitContent_not_auto: "fitContent n \<noteq> ''auto''"
  by (simp add: fitContent_def)

text \<open>
  Claim C2, as stated, on a grid with a line edit in column 0 and a horizontal spacer in
  column 1: column 0 does not resolve to \<open>auto\<close>.
\<close>

theorem spacer_layout_not_all_auto:
  "find horizontalSpacer sampleGrid \<noteq> None
   \<and> computeLayoutColumns sampleGrid False = [''fit-content(50%)'', ''auto'']"
  by code_simp

text \<open>
  Claim C2, amended. For a grid or form layout with at least one horizontal spacer,
  \<open>computeLayoutColumns\<close> resolves a column to \<open>auto\<close> exactly when one of the items
  placed in it is a horizontal spacer; every other column gets the fit-content share
  of the number of columns, which is not \<open>auto\<close>. Every item with a column that is an
  array index has its column among those resolved.
\<close>

theorem computeLayoutColumns_with_spacer:
  assumes "\<exists>item \<in> set items. horizontalSpacer item"
  shows "(\<forall>i < length (computeLayoutColumns items False).
            computeLayoutColumns items False ! i =
              (if \<exists>item \<in> set items. horizontalSpacer item \<and> parseIntOr (icolumn item) 0 = int i
               then ''auto''
               else fitContent (length (computeLayoutColumns items False))))
         \<and> fitContent (length (computeLayoutColumns items False)) \<noteq> ''auto''
         \<and> (\<forall>item \<in> set items.
               0 \<le> parseIntOr (icolumn item) 0 \<and> parseIntOr (icolumn item) 0 < arrayIndexLimit \<longrightarrow>
               nat (parseIntOr (icolumn item) 0) < length (computeLayoutColumns items False))"
proof -
  let ?cols = "fst (columnLoop False True 0 items ([], False))"
  have spacer: "find horizontalSpacer items \<noteq> None"
    using assms by (auto simp add: find_None_iff)
  have hasAuto: "snd (columnLoop False True 0 items ([], False))"
    using assms by (simp add: columnLoop_hasAuto)
  have result: "computeLayoutColumns items False =
      map (\<lambda>cell. case cell of None \<Rightarrow> fitContent (length ?cols) | Some s \<Rightarrow> s) ?cols"
    using spacer hasAuto by (simp add: computeLayoutColumns_def Let_def)
  have len: "int (length ?cols) \<le> arrayIndexLimit"
    by (rule columnLoop_length) (simp add: arrayIndexLimit_def)
  have cell: "computeLayoutColumns items False ! i =
      (if \<exists>item \<in> set items. horizontalSpacer item \<and> parseIntOr (icolumn item) 0 = int i
       then ''auto'' else fitContent (length (computeLayoutColumns items False)))"
    if "i < length (computeLayoutColumns items False)" for i
  proof -
    from that have i: "i < length ?cols" by (simp add: result)
    then have "?cols ! i = readCell (int i) ?cols" by (simp add: readCell_nat)
    also have "\<dots> = (if \<exists>item \<in> set items. horizontalSpacer item \<and> parseIntOr (icolumn item) 0 = int i
                      then Some ''auto'' else None)"
    proof -
      have "int i < arrayIndexLimit" using i len by linarith
      moreover have "readCell (int i) [] = None" by (simp add: readCell_nat)
      ultimately show ?thesis by (simp add: columnLoop_cells)
    qed
    finally show ?thesis using i by (auto simp add: result)
  qed
  have cover: "nat (parseIntOr (icolumn item) 0) < length (computeLayoutColumns items False)"
    if "item \<in> set items" "0 \<le> parseIntOr (icolumn item) 0"
       "parseIntOr (icolumn item) 0 < arrayIndexLimit" for item
    using columnLoop_covers [OF that] by (simp add: result)
  show ?thesis using cell cover fitContent_not_auto by blast
qed

theorem computeLayoutColumns_with_spacer_witness:
  "horizontalSpacer (sampleGrid ! 1)
   \<and> computeLayoutColumns sampleGrid False ! 1 = ''auto''
   \<and> computeLayoutColumns sampleGrid False ! 0 = fitContent 2"
proof -
  have h: "\<exists>item \<in> set sampleGrid. horizontalSpacer item"
    by code_simp
  have l: "length (computeLayoutColumns sampleGrid False) = 2"
    by code_simp
  have column1: "\<exists>item \<in> set sampleGrid. horizontalSpacer item \<and> parseIntOr (icolumn item) 0 = int 1"
    by code_simp
  have column0: "\<not> (\<exists>item \<in> set sampleGrid. horizontalSpacer item \<and> parseIntOr (icolumn item) 0 = int 0)"
    by code_simp
  have s: "horizontalSpacer (sampleGrid ! 1)"
    by code_simp
  have cells: "\<forall>i < 2. computeLayoutColumns sampleGrid False ! i =
      (if \<exists>item \<in> set sampleGrid. horizontalSpacer item \<and> parseIntOr (icolumn item) 0 = int i
       then ''auto'' else fitContent 2)"
    using computeLayoutColumns_with_spacer [OF h] l by auto
  have "computeLayoutColumns sampleGrid False ! 1 = ''auto''"
    using cells column1 by auto
  moreover have "computeLayoutColumns sampleGrid False ! 0 = fitContent 2"
    using cells column0 by auto
  ultimately show ?thesis using s by simp
qed


section \<open>QtDesignerForm: responses and request identifiers\<close>

lemma step_latestRequestOnly:
  "latestRequestOnly cfg \<Longrightarrow> latestRequestOnly (step xmlParse props pre cfg ev)"
  by (cases ev)
     (auto simp add: latestRequestOnly_def formDidUpdate_def parseForm_def Let_def
        preprocessorCallback_def split: option.splits prod.splits if_splits)

lemma foldl_step_latestRequestOnly:
  "latestRequestOnly cfg \<Longrightarrow> latestRequestOnly (foldl (step xmlParse props pre) cfg events)"
  by (induction events arbitrary: cfg) (simp_all add: step_latestRequestOnly)

lemma run_latestRequestOnly: "latestRequestOnly (run xmlParse props pre events)"
  unfolding run_def
  by (rule foldl_step_latestRequestOnly)
     (simp add: latestRequestOnly_def initialConfig_def defaultState_def)

text \<open>
  Claim C1. A response that a newer request has superseded is to be dropped once the
  newer one is committed. The code issues the identifier of a request only when its
  response is parsed, so an older response that arrives late gets the newest
  identifier. Form \<open>a.ui\<close> is requested, then form \<open>b.ui\<close>; the response to the newer
  request arrives first and is committed; the response to the older request arrives
  after it and replaces the committed \<open>formData\<close>, without a preprocessor and with one
  (whose callbacks each follow their parse).
\<close>

theorem stale_response_overwrites_formData:
  "requested (run sampleParse sampleProps False
       [PropsChange None loadA, PropsChange (Some loadA) loadB]) = [''a.ui'', ''b.ui'']
   \<and> formData (component (run sampleParse sampleProps False
       [PropsChange None loadA, PropsChange (Some loadA) loadB, Response 1 ''B'']))
     = Some (fst (parseTree sampleProps (sampleParse ''B'')))
   \<and> formData (component (run sampleParse sampleProps False
       [PropsChange None loadA, PropsChange (Some loadA) loadB, Response 1 ''B'',
        Response 0 ''A'']))
     = Some (fst (parseTree sampleProps (sampleParse ''A'')))
   \<and> formData (component (run sampleParse sampleProps True
       [PropsChange None loadA, PropsChange (Some loadA) loadB, Response 1 ''B'',
        Callback 0 (fst (parseTree sampleProps (sampleParse ''B''))), Response 0 ''A'',
        Callback 1 (fst (parseTree sampleProps (sampleParse ''A'')))]))
     = Some (fst (parseTree sampleProps (sampleParse ''A'')))
   \<and> wname (ui_widget (fst (parseTree sampleProps (sampleParse ''A'')))) = Some ''A''
   \<and> wname (ui_widget (fst (parseTree sampleProps (sampleParse ''B'')))) = Some ''B''"
  by code_simp

text \<open>
  What the guard of the callback does achieve: the state holds no identifier but the
  last one issued, so the callback of a preprocessor for any other identifier changes
  nothing in the component state.
\<close>

lemma superseded_callback_dropped:
  assumes "cfg = run xmlParse props pre events" and "Suc reqId \<noteq> issued cfg"
  shows "component (step xmlParse props pre cfg (Callback reqId formData')) = component cfg"
proof -
  have "latestRequestOnly cfg" using assms(1) run_latestRequestOnly by simp
  with assms(2) have "loadingReqId (component cfg) \<noteq> Some reqId"
    by (auto simp add: latestRequestOnly_def split: option.splits)
  then show ?thesis by (simp add: preprocessorCallback_def)
qed

end
